theory Spec2Isabelle
  imports Main "HOL-Library.Sublist"
begin

section \<open>Data model\<close>

text \<open>
  A JavaScript \<^verbatim>\<open>Date\<close> is its time value: integral milliseconds since the epoch, or
  \<^verbatim>\<open>NaN\<close> for an Invalid Date, which is \<open>None\<close> here. \<^verbatim>\<open>new Date(ms)\<close> clips a time
  value beyond 8.64e15 ms to an Invalid Date.
\<close>

type_synonym Date = "int option"

definition new_Date :: "int \<Rightarrow> Date" where
  "new_Date ms = (if \<bar>ms\<bar> \<le> 8640000000000000 then Some ms else None)"

datatype estado = ACTIVO | INACTIVO | CANCELADO

text \<open>
  The rows of the two tables, with the columns the scheduling code reads or writes
  (price, language, format, capacity and the audit columns are payload that no check reads).
  A turno's id is a text key: the one the caller sends with a row, or else Prisma's
  generated cuid. Ids are numbers here, and a generated id is the table's counter
  \<open>siguienteId\<close>, which stays above every id of the table. \<^verbatim>\<open>duracionMin\<close> is an integer
  column. A table is the list of its rows in the order they were inserted, which is also
  the order a query returns them in.
\<close>

record pelicula =
  pid :: string
  titulo :: string
  duracionMin :: int
  p_eliminadoEn :: "int option"

record turno =
  tid :: nat
  peliculaId :: string
  sala :: string
  inicio :: int
  fin :: int
  estado :: estado
  eliminadoEn :: "int option"

record db =
  peliculas :: "pelicula list"
  turnos :: "turno list"
  siguienteId :: nat

section \<open>Messages and validation results\<close>

text \<open>
  The source builds Spanish message strings from templates; a message is kept as its
  template together with the values interpolated into it. \<open>Texto\<close> is a message that is
  a plain string (the storage layer's).
\<close>

datatype mensaje =
    FechasInvalidas
  | FinNoPosterior
  | InicioEnPasado
  | DuracionInsuficiente int int int
  | DuracionExcesiva
  | ConflictoHorarioSala string string int int
  | ErrorInternoSolapamiento
  | PeliculaNoEncontrada
  | TurnoNoEncontrado
  | ConflictoHorarioDB
  | ConflictoHorarioDBItem
  | ArrayRequerido
  | Maximo50
  | Texto string

text \<open>
  The validators return \<^verbatim>\<open>{ valido: true }\<close> or \<^verbatim>\<open>{ valido: false, mensaje }\<close>.
\<close>

datatype validacion = Valido | Invalido mensaje

fun valido :: "validacion \<Rightarrow> bool" where
  "valido Valido = True"
| "valido (Invalido m) = False"

section \<open>turnoValidations.ts\<close>

text \<open>
  \<^verbatim>\<open>validateTurnoDuration(inicio, fin, duracionPeliculaMin)\<close>. The function reads the clock
  itself (\<^verbatim>\<open>const ahora = new Date()\<close>); the reading is the first argument here. Nothing in
  the body can throw, so the \<^verbatim>\<open>catch\<close> branch is not reachable.
\<close>

definition validateTurnoDuration :: "int \<Rightarrow> Date \<Rightarrow> Date \<Rightarrow> int \<Rightarrow> validacion" where
  "validateTurnoDuration ahora inicioD finD duracionPeliculaMin =
    (case (inicioD, finD) of
      (Some i, Some f) \<Rightarrow>
        if f \<le> i then Invalido FinNoPosterior
        else if i < ahora then Invalido InicioEnPasado
        else
          let duracionTurnoMin = (f - i) div (1000 * 60);
              duracionMinimaRequerida = duracionPeliculaMin + 15
          in if duracionTurnoMin < duracionMinimaRequerida
             then Invalido (DuracionInsuficiente duracionTurnoMin duracionMinimaRequerida
                              duracionPeliculaMin)
             else if duracionTurnoMin > 240 then Invalido DuracionExcesiva
             else Valido
    | _ \<Rightarrow> Invalido FechasInvalidas)"

text \<open>
  The \<^verbatim>\<open>OR\<close> of four cases in the query of \<^verbatim>\<open>validateTurnoOverlap\<close>, for a new turno
  \<open>[i, f)\<close> against a stored row.
\<close>

definition solapa :: "int \<Rightarrow> int \<Rightarrow> turno \<Rightarrow> bool" where
  "solapa i f t =
    ((inicio t \<le> i \<and> fin t > i)
   \<or> (inicio t < f \<and> fin t \<ge> f)
   \<or> (inicio t \<ge> i \<and> fin t \<le> f)
   \<or> (inicio t \<le> i \<and> fin t \<ge> f))"

text \<open>The whole \<^verbatim>\<open>where\<close> clause, with the optional \<^verbatim>\<open>id: { not: turnoIdExcluir }\<close>.\<close>

definition where_solapados :: "string \<Rightarrow> int \<Rightarrow> int \<Rightarrow> nat option \<Rightarrow> turno \<Rightarrow> bool" where
  "where_solapados s i f turnoIdExcluir t =
    (sala t = s
   \<and> (estado t = ACTIVO \<or> estado t = INACTIVO)
   \<and> eliminadoEn t = None
   \<and> solapa i f t
   \<and> (case turnoIdExcluir of None \<Rightarrow> True | Some x \<Rightarrow> tid t \<noteq> x))"

text \<open>
  \<^verbatim>\<open>validateTurnoOverlap(sala, inicio, fin, turnoIdExcluir?)\<close>: the first row of the query's
  result makes the message, with the title of its pelicula. Prisma throws on an Invalid
  Date, and reading the title of a missing pelicula throws; both end in the \<^verbatim>\<open>catch\<close>
  branch.
\<close>

definition validateTurnoOverlap ::
  "db \<Rightarrow> string \<Rightarrow> Date \<Rightarrow> Date \<Rightarrow> nat option \<Rightarrow> validacion" where
  "validateTurnoOverlap st s inicioD finD turnoIdExcluir =
    (case (inicioD, finD) of
      (Some i, Some f) \<Rightarrow>
        (case filter (where_solapados s i f turnoIdExcluir) (turnos st) of
          [] \<Rightarrow> Valido
        | turnoConflicto # _ \<Rightarrow>
            (case find (\<lambda>p. pid p = peliculaId turnoConflicto) (peliculas st) of
              Some p \<Rightarrow>
                Invalido (ConflictoHorarioSala s (titulo p)
                            (inicio turnoConflicto) (fin turnoConflicto))
            | None \<Rightarrow> Invalido ErrorInternoSolapamiento))
    | _ \<Rightarrow> Invalido ErrorInternoSolapamiento)"

section \<open>errorHandler.ts\<close>

text \<open>
  A thrown error, as the controllers and the error handler read it: \<^verbatim>\<open>statusCode\<close>,
  \<^verbatim>\<open>code\<close> and \<^verbatim>\<open>message\<close>. An error of the storage layer has no \<^verbatim>\<open>statusCode\<close>.
\<close>

record api_error =
  statusCode :: "nat option"
  code :: "string option"
  message :: mensaje

definition createError :: "nat \<Rightarrow> mensaje \<Rightarrow> string \<Rightarrow> api_error" where
  "createError sc m c = \<lparr>statusCode = Some sc, code = Some c, message = m\<rparr>"

text \<open>
  What \<^verbatim>\<open>errorHandler\<close> sends: \<^verbatim>\<open>error.statusCode || 500\<close>,
  \<^verbatim>\<open>error.code || 'INTERNAL_SERVER_ERROR'\<close>, \<^verbatim>\<open>error.message || '...'\<close>.
\<close>

record respuesta_error =
  r_status :: nat
  r_code :: string
  r_message :: mensaje

definition errorHandler :: "api_error \<Rightarrow> respuesta_error" where
  "errorHandler e =
    \<lparr>r_status = (case statusCode e of None \<Rightarrow> 500 | Some sc \<Rightarrow> if sc = 0 then 500 else sc),
     r_code = (case code e of None \<Rightarrow> ''INTERNAL_SERVER_ERROR''
               | Some c \<Rightarrow> if c = [] then ''INTERNAL_SERVER_ERROR'' else c),
     r_message = (case message e of Texto [] \<Rightarrow> Texto ''Error interno del servidor''
                  | m \<Rightarrow> m)\<rparr>"

section \<open>The storage layer: Prisma on PostgreSQL with the exclusion constraint\<close>

text \<open>
  The migration adds to table \<^verbatim>\<open>turnos\<close>
  \<^verbatim>\<open>CONSTRAINT turnos_no_overlap_exclusion EXCLUDE USING GIST (sala WITH =, tstzrange(inicio, fin) WITH &&)\<close>.
  The constraint has no \<^verbatim>\<open>WHERE\<close> predicate: it ranges over every row of the table,
  whatever its \<^verbatim>\<open>estado\<close> and \<^verbatim>\<open>eliminadoEn\<close>. \<^verbatim>\<open>tstzrange(a, b)\<close> is the half-open range
  \<open>[a, b)\<close>; it is empty when \<open>a = b\<close> and raises an error when \<open>b < a\<close>. Two ranges
  overlap (\<^verbatim>\<open>&&\<close>) when they share a point, so an empty range overlaps nothing.
\<close>

definition rangos_solapan :: "int \<Rightarrow> int \<Rightarrow> int \<Rightarrow> int \<Rightarrow> bool" where
  "rangos_solapan a1 b1 a2 b2 = (a1 < b1 \<and> a2 < b2 \<and> a1 < b2 \<and> a2 < b1)"

definition viola_exclusion :: "turno \<Rightarrow> turno list \<Rightarrow> bool" where
  "viola_exclusion r otras =
    list_ex (\<lambda>t. sala t = sala r \<and> rangos_solapan (inicio t) (fin t) (inicio r) (fin r)) otras"

text \<open>
  The errors of the storage layer. Their texts stand for PostgreSQL's and Prisma's; what
  the controllers read of them is the code (\<^verbatim>\<open>P2002\<close>) and whether the message contains
  the constraint's name.
\<close>

definition nombre_restriccion :: string where
  "nombre_restriccion = ''turnos_no_overlap_exclusion''"

definition error_exclusion :: api_error where
  "error_exclusion =
    \<lparr>statusCode = None, code = None,
     message = Texto (''conflicting key value violates exclusion constraint ''
                      @ nombre_restriccion)\<rparr>"

definition error_rango :: api_error where
  "error_rango =
    \<lparr>statusCode = None, code = None,
     message = Texto ''range lower bound must be less than or equal to range upper bound''\<rparr>"

definition error_fk :: api_error where
  "error_fk =
    \<lparr>statusCode = None, code = Some ''P2003'',
     message = Texto ''Foreign key constraint failed on the field: peliculaId''\<rparr>"

definition error_no_encontrado :: api_error where
  "error_no_encontrado =
    \<lparr>statusCode = None, code = Some ''P2025'',
     message = Texto ''Record to update not found''\<rparr>"

definition error_interno :: api_error where
  "error_interno =
    \<lparr>statusCode = None, code = None, message = Texto ''Invalid value provided''\<rparr>"

definition error_pk :: api_error where
  "error_pk =
    \<lparr>statusCode = None, code = Some ''P2002'',
     message = Texto ''Unique constraint failed on the fields: (id)''\<rparr>"

text \<open>
  The checks a written row passes, against the other rows of the table: the range
  constructor, the exclusion constraint, the foreign key to \<^verbatim>\<open>peliculas\<close>.
\<close>

definition comprobar_fila :: "db \<Rightarrow> turno \<Rightarrow> turno list \<Rightarrow> api_error option" where
  "comprobar_fila st r otras =
    (if fin r < inicio r then Some error_rango
     else if viola_exclusion r otras then Some error_exclusion
     else if \<not> list_ex (\<lambda>p. pid p = peliculaId r) (peliculas st) then Some error_fk
     else None)"

text \<open>
  \<^verbatim>\<open>prisma.turno.create({ data })\<close>. The row takes the id and the \<^verbatim>\<open>eliminadoEn\<close> of
  \<^verbatim>\<open>data\<close> when it has them, a generated id and null otherwise. An id that is already in
  the table violates the primary key (Prisma's \<^verbatim>\<open>P2002\<close>).
\<close>

definition prisma_turno_create ::
  "db \<Rightarrow> nat option \<Rightarrow> string \<Rightarrow> string \<Rightarrow> int \<Rightarrow> int \<Rightarrow> estado \<Rightarrow> int option
     \<Rightarrow> api_error + (db \<times> turno)" where
  "prisma_turno_create st ident pel s i f e el =
    (let r = \<lparr>tid = (case ident of None \<Rightarrow> siguienteId st | Some k \<Rightarrow> k),
               peliculaId = pel, sala = s, inicio = i, fin = f,
               estado = e, eliminadoEn = el\<rparr>
     in if ident \<noteq> None \<and> list_ex (\<lambda>t. tid t = tid r) (turnos st) then Inl error_pk
        else (case comprobar_fila st r (turnos st) of
                Some err \<Rightarrow> Inl err
              | None \<Rightarrow>
                  Inr ((st\<lparr>turnos := turnos st @ [r],
                           siguienteId := max (siguienteId st) (Suc (tid r))\<rparr>), r)))"

text \<open>The \<^verbatim>\<open>data\<close> of an update: the columns it sets.\<close>

record datos_update =
  u_peliculaId :: "string option"
  u_sala :: "string option"
  u_inicio :: "int option"
  u_fin :: "int option"
  u_estado :: "estado option"
  u_eliminadoEn :: "int option"

definition set_datos :: "datos_update \<Rightarrow> turno \<Rightarrow> turno" where
  "set_datos d t =
    t\<lparr>peliculaId := (case u_peliculaId d of None \<Rightarrow> peliculaId t | Some x \<Rightarrow> x),
      sala := (case u_sala d of None \<Rightarrow> sala t | Some x \<Rightarrow> x),
      inicio := (case u_inicio d of None \<Rightarrow> inicio t | Some x \<Rightarrow> x),
      fin := (case u_fin d of None \<Rightarrow> fin t | Some x \<Rightarrow> x),
      estado := (case u_estado d of None \<Rightarrow> estado t | Some x \<Rightarrow> x),
      eliminadoEn := (case u_eliminadoEn d of None \<Rightarrow> eliminadoEn t | Some x \<Rightarrow> Some x)\<rparr>"

text \<open>
  \<^verbatim>\<open>prisma.turno.update({ where: { id }, data })\<close>: the updated row is checked against the
  other rows of the table.
\<close>

definition prisma_turno_update ::
  "db \<Rightarrow> nat \<Rightarrow> datos_update \<Rightarrow> api_error + (db \<times> turno)" where
  "prisma_turno_update st i d =
    (case find (\<lambda>t. tid t = i) (turnos st) of
      None \<Rightarrow> Inl error_no_encontrado
    | Some t \<Rightarrow>
        let r = set_datos d t
        in (case comprobar_fila st r (filter (\<lambda>t. tid t \<noteq> i) (turnos st)) of
              Some err \<Rightarrow> Inl err
            | None \<Rightarrow>
                Inr ((st\<lparr>turnos := map (\<lambda>t. if tid t = i then r else t) (turnos st)\<rparr>), r)))"

section \<open>turnosController.ts\<close>

text \<open>
  The body of a request for one turno, after \<^verbatim>\<open>new Date(...)\<close> of its dates. A missing
  or unparsable date is an Invalid Date. \<^verbatim>\<open>createTurno\<close> reads neither \<^verbatim>\<open>fin\<close> nor
  \<^verbatim>\<open>id\<close> nor \<^verbatim>\<open>eliminadoEn\<close>: it builds the row from the keys it names. The two
  batch handlers spread the whole item into the row (\<^verbatim>\<open>...turnoData\<close>, \<^verbatim>\<open>...turno\<close>), and
  their routes have no schema, so an item's \<^verbatim>\<open>id\<close> and \<^verbatim>\<open>eliminadoEn\<close> reach the table.
\<close>

record turno_data =
  d_id :: "nat option"
  d_peliculaId :: string
  d_sala :: string
  d_inicio :: Date
  d_fin :: Date
  d_estado :: "estado option"
  d_eliminadoEn :: "int option"

text \<open>
  \<^verbatim>\<open>error.message?.includes('turnos_no_overlap_exclusion')\<close>. Of the templates, only the
  conflict message of \<^verbatim>\<open>validateTurnoOverlap\<close> interpolates strings (the sala and the
  title); the text around them has no character run of the name, so the name is in the
  message exactly when it is in one of the two.
\<close>

fun incluye_restriccion :: "mensaje \<Rightarrow> bool" where
  "incluye_restriccion (Texto s) = sublist nombre_restriccion s"
| "incluye_restriccion (ConflictoHorarioSala s ti i f) =
     (sublist nombre_restriccion s \<or> sublist nombre_restriccion ti)"
| "incluye_restriccion m = False"

definition es_conflicto_db :: "api_error \<Rightarrow> bool" where
  "es_conflicto_db e = (code e = Some ''P2002'' \<or> incluye_restriccion (message e))"

text \<open>The \<^verbatim>\<open>try\<close> block of \<^verbatim>\<open>createTurno\<close>; \<open>Inl\<close> is a thrown error.\<close>

definition createTurno_try :: "int \<Rightarrow> db \<Rightarrow> turno_data \<Rightarrow> api_error + (db \<times> turno)" where
  "createTurno_try ahora st body =
    (case find (\<lambda>p. pid p = d_peliculaId body \<and> p_eliminadoEn p = None) (peliculas st) of
      None \<Rightarrow> Inl (createError 404 PeliculaNoEncontrada ''PELICULA_NOT_FOUND'')
    | Some pelicula \<Rightarrow>
        let inicioDate = d_inicio body;
            finDate = (case inicioDate of
                         None \<Rightarrow> None
                       | Some i \<Rightarrow> new_Date (i + (duracionMin pelicula + 15) * 60 * 1000))
        in (case validateTurnoDuration ahora inicioDate finDate (duracionMin pelicula) of
              Invalido m \<Rightarrow> Inl (createError 400 m ''INVALID_DURATION'')
            | Valido \<Rightarrow>
               (case validateTurnoOverlap st (d_sala body) inicioDate finDate None of
                  Invalido m \<Rightarrow> Inl (createError 409 m ''SCHEDULE_CONFLICT'')
                | Valido \<Rightarrow>
                   (case (inicioDate, finDate) of
                      (Some i, Some f) \<Rightarrow>
                        prisma_turno_create st None (d_peliculaId body) (d_sala body) i f
                          (case d_estado body of None \<Rightarrow> ACTIVO | Some e \<Rightarrow> e) None
                    | _ \<Rightarrow> Inl error_interno))))"

text \<open>
  \<^verbatim>\<open>createTurno\<close> with its \<^verbatim>\<open>catch\<close>: an error with code \<^verbatim>\<open>P2002\<close> or with the
  constraint's name in its message becomes the 409 \<^verbatim>\<open>SCHEDULE_CONFLICT\<close>; any other error
  goes to the error handler as it is.
\<close>

definition createTurno :: "int \<Rightarrow> db \<Rightarrow> turno_data \<Rightarrow> api_error + (db \<times> turno)" where
  "createTurno ahora st body =
    (case createTurno_try ahora st body of
      Inl e \<Rightarrow>
        if es_conflicto_db e then Inl (createError 409 ConflictoHorarioDB ''SCHEDULE_CONFLICT'')
        else Inl e
    | Inr r \<Rightarrow> Inr r)"

text \<open>
  The body of an update, as \<^verbatim>\<open>turnoUpdateSchema\<close> leaves it: every key is optional, and a
  date that is given may be an Invalid Date.
\<close>

record update_data =
  b_peliculaId :: "string option"
  b_sala :: "string option"
  b_inicio :: "Date option"
  b_fin :: "Date option"
  b_estado :: "estado option"

text \<open>
  \<^verbatim>\<open>updateTurno\<close>. The validations run only under
  \<^verbatim>\<open>if (updateData.inicio || updateData.fin)\<close>; a Date object is truthy. The \<^verbatim>\<open>catch\<close>
  passes every error on as it is. \<^verbatim>\<open>updateData.sala || turnoExistente.sala\<close> takes the
  stored sala for an empty string too.
\<close>

definition updateTurno :: "int \<Rightarrow> db \<Rightarrow> nat \<Rightarrow> update_data \<Rightarrow> api_error + (db \<times> turno)" where
  "updateTurno ahora st i updateData =
    (case find (\<lambda>t. tid t = i \<and> eliminadoEn t = None) (turnos st) of
      None \<Rightarrow> Inl (createError 404 TurnoNoEncontrado ''TURNO_NOT_FOUND'')
    | Some turnoExistente \<Rightarrow>
        if b_inicio updateData \<noteq> None \<or> b_fin updateData \<noteq> None then
          (let inicioDate = (case b_inicio updateData of
                               None \<Rightarrow> Some (inicio turnoExistente) | Some d \<Rightarrow> d);
               finDate = (case b_fin updateData of
                            None \<Rightarrow> Some (fin turnoExistente) | Some d \<Rightarrow> d)
           in (case find (\<lambda>p. pid p = peliculaId turnoExistente) (peliculas st) of
                None \<Rightarrow> Inl error_interno
              | Some pelicula \<Rightarrow>
                 (case validateTurnoDuration ahora inicioDate finDate (duracionMin pelicula) of
                    Invalido m \<Rightarrow> Inl (createError 400 m ''INVALID_DURATION'')
                  | Valido \<Rightarrow>
                     (let s = (case b_sala updateData of
                                 None \<Rightarrow> sala turnoExistente
                               | Some x \<Rightarrow> if x = [] then sala turnoExistente else x)
                      in (case validateTurnoOverlap st s inicioDate finDate (Some i) of
                           Invalido m \<Rightarrow> Inl (createError 409 m ''SCHEDULE_CONFLICT'')
                         | Valido \<Rightarrow>
                            (case (inicioDate, finDate) of
                               (Some ini, Some fi) \<Rightarrow>
                                 prisma_turno_update st i
                                   \<lparr>u_peliculaId = b_peliculaId updateData,
                                    u_sala = b_sala updateData,
                                    u_inicio = Some ini, u_fin = Some fi,
                                    u_estado = b_estado updateData,
                                    u_eliminadoEn = None\<rparr>
                             | _ \<Rightarrow> Inl error_interno))))))
        else
          prisma_turno_update st i
            \<lparr>u_peliculaId = b_peliculaId updateData, u_sala = b_sala updateData,
             u_inicio = None, u_fin = None, u_estado = b_estado updateData,
             u_eliminadoEn = None\<rparr>)"

text \<open>\<^verbatim>\<open>deleteTurno\<close>: one update sets \<^verbatim>\<open>eliminadoEn\<close> to the clock's reading and
  \<^verbatim>\<open>estado\<close> to \<^verbatim>\<open>CANCELADO\<close>.\<close>

definition deleteTurno :: "int \<Rightarrow> db \<Rightarrow> nat \<Rightarrow> api_error + db" where
  "deleteTurno ahora st i =
    (case find (\<lambda>t. tid t = i \<and> eliminadoEn t = None) (turnos st) of
      None \<Rightarrow> Inl (createError 404 TurnoNoEncontrado ''TURNO_NOT_FOUND'')
    | Some turno \<Rightarrow>
        (case prisma_turno_update st i
                \<lparr>u_peliculaId = None, u_sala = None, u_inicio = None, u_fin = None,
                 u_estado = Some CANCELADO, u_eliminadoEn = Some ahora\<rparr> of
           Inl e \<Rightarrow> Inl e
         | Inr (st', r) \<Rightarrow> Inr st'))"

text \<open>
  \<^verbatim>\<open>createMultipleTurnos\<close>. The state of the loop: the table, \<^verbatim>\<open>turnosCreados\<close> and
  \<^verbatim>\<open>errores\<close>, whose entries are \<^verbatim>\<open>{ index, error, data }\<close>.
\<close>

record lote =
  l_db :: db
  turnosCreados :: "turno list"
  errores :: "(nat \<times> mensaje \<times> turno_data) list"

text \<open>
  \<^verbatim>\<open>processTurnoItem(turnoData, index)\<close>. The route has no schema, so an item is any
  JSON value. \<open>None\<close> is an item that is \<^verbatim>\<open>null\<close> or whose \<^verbatim>\<open>peliculaId\<close> is not a string:
  reading the key, or Prisma's check of the query, throws in
  \<^verbatim>\<open>prisma.pelicula.findFirst\<close>, which is outside the \<^verbatim>\<open>try\<close> block, so the error
  leaves \<^verbatim>\<open>processTurnoItem\<close> (\<open>Inl\<close>). For any other item the dates are the item's own
  (\<^verbatim>\<open>new Date(turnoData.inicio)\<close>, \<^verbatim>\<open>new Date(turnoData.fin)\<close>), every failure pushes one
  entry to \<^verbatim>\<open>errores\<close> and returns, and the row is
  \<^verbatim>\<open>{ ...turnoData, inicio, fin, estado: turnoData.estado || 'ACTIVO' }\<close>. An item
  that has no \<^verbatim>\<open>peliculaId\<close> at all is not among the items here: Prisma refuses a row
  without it, inside the \<^verbatim>\<open>try\<close> block, so such an item ends as an entry of \<^verbatim>\<open>errores\<close>
  and writes nothing.
\<close>

definition error_item :: api_error where
  "error_item =
    \<lparr>statusCode = None, code = None,
     message = Texto ''Cannot read properties of null (reading peliculaId)''\<rparr>"

definition processTurnoItem ::
  "int \<Rightarrow> lote \<Rightarrow> turno_data option \<Rightarrow> nat \<Rightarrow> api_error + lote" where
  "processTurnoItem ahora l item index =
    (case item of
      None \<Rightarrow> Inl error_item
    | Some turnoData \<Rightarrow>
       Inr (case find (\<lambda>p. pid p = d_peliculaId turnoData \<and> p_eliminadoEn p = None)
                  (peliculas (l_db l)) of
         None \<Rightarrow> l\<lparr>errores := errores l @ [(index, PeliculaNoEncontrada, turnoData)]\<rparr>
       | Some pelicula \<Rightarrow>
           let inicioDate = d_inicio turnoData; finDate = d_fin turnoData
           in (case validateTurnoDuration ahora inicioDate finDate (duracionMin pelicula) of
                Invalido m \<Rightarrow> l\<lparr>errores := errores l @ [(index, m, turnoData)]\<rparr>
              | Valido \<Rightarrow>
                 (case validateTurnoOverlap (l_db l) (d_sala turnoData) inicioDate finDate
                         None of
                    Invalido m \<Rightarrow> l\<lparr>errores := errores l @ [(index, m, turnoData)]\<rparr>
                  | Valido \<Rightarrow>
                     (case (case (inicioDate, finDate) of
                              (Some i, Some f) \<Rightarrow>
                                prisma_turno_create (l_db l) (d_id turnoData)
                                  (d_peliculaId turnoData) (d_sala turnoData) i f
                                  (case d_estado turnoData of None \<Rightarrow> ACTIVO | Some e \<Rightarrow> e)
                                  (d_eliminadoEn turnoData)
                            | _ \<Rightarrow> Inl error_interno) of
                        Inr (st', created) \<Rightarrow>
                          l\<lparr>l_db := st', turnosCreados := turnosCreados l @ [created]\<rparr>
                      | Inl err \<Rightarrow>
                          if es_conflicto_db err
                          then l\<lparr>errores := errores l
                                   @ [(index, ConflictoHorarioDBItem, turnoData)]\<rparr>
                          else l\<lparr>errores := errores l
                                   @ [(index, message err, turnoData)]\<rparr>)))))"

text \<open>
  The \<^verbatim>\<open>for\<close> loop from index \<open>i\<close> over the remaining items. Each item's validation
  reads the clock anew: \<open>reloj k\<close> is the reading at item \<open>k\<close>. An error that leaves
  \<^verbatim>\<open>processTurnoItem\<close> ends the loop; the result is that error, if any, and the state of
  the loop when it ended.
\<close>

fun procesar ::
  "(nat \<Rightarrow> int) \<Rightarrow> lote \<Rightarrow> turno_data option list \<Rightarrow> nat \<Rightarrow> api_error option \<times> lote" where
  "procesar reloj l [] i = (None, l)"
| "procesar reloj l (x # xs) i =
     (case processTurnoItem (reloj i) l x i of
        Inl e \<Rightarrow> (Some e, l)
      | Inr l' \<Rightarrow> procesar reloj l' xs (Suc i))"

text \<open>
  \<^verbatim>\<open>createMultipleTurnos\<close>: what it answers, and the tables when it ends. An error out of
  the loop goes to the outer \<^verbatim>\<open>catch\<close> and on to the error handler; the rows inserted
  before it stay in the table.
\<close>

definition createMultipleTurnos ::
  "(nat \<Rightarrow> int) \<Rightarrow> db \<Rightarrow> turno_data option list \<Rightarrow> (api_error + lote) \<times> db" where
  "createMultipleTurnos reloj st ts =
    (if length ts = 0 then (Inl (createError 400 ArrayRequerido ''INVALID_INPUT''), st)
     else if length ts > 50 then (Inl (createError 400 Maximo50 ''LIMIT_EXCEEDED''), st)
     else (case procesar reloj \<lparr>l_db = st, turnosCreados = [], errores = []\<rparr> ts 0 of
             (Some e, l) \<Rightarrow> (Inl e, l_db l)
           | (None, l) \<Rightarrow> (Inr l, l_db l)))"

section \<open>peliculasController.ts\<close>

text \<open>
  \<^verbatim>\<open>prisma.turno.createMany({ data })\<close> is one \<^verbatim>\<open>INSERT\<close> of all the rows: Prisma first
  checks the values (a date must be valid), then the rows are inserted in order, each
  checked against the table and the rows before it, and a row that fails undoes the whole
  statement.
\<close>

fun insertar_filas :: "db \<Rightarrow> turno_data list \<Rightarrow> api_error + db" where
  "insertar_filas st [] = Inr st"
| "insertar_filas st (d # ds) =
     (case (d_inicio d, d_fin d) of
        (Some i, Some f) \<Rightarrow>
          (case prisma_turno_create st (d_id d) (d_peliculaId d) (d_sala d) i f
                  (case d_estado d of None \<Rightarrow> ACTIVO | Some e \<Rightarrow> e) (d_eliminadoEn d) of
             Inl e \<Rightarrow> Inl e
           | Inr (st', t) \<Rightarrow> insertar_filas st' ds)
      | _ \<Rightarrow> Inl error_interno)"

definition prisma_turno_createMany :: "db \<Rightarrow> turno_data list \<Rightarrow> api_error + db" where
  "prisma_turno_createMany st ds =
    (if list_ex (\<lambda>d. d_inicio d = None \<or> d_fin d = None) ds then Inl error_interno
     else insertar_filas st ds)"

text \<open>
  \<^verbatim>\<open>bulkCreateTurnos\<close> (\<^verbatim>\<open>POST /api/peliculas/:id/turnos:bulkCreate\<close>, a route with no
  schema): after the lookup of the pelicula, the rows of the body are inserted as they
  are, with \<^verbatim>\<open>peliculaId: id\<close>; there is no validation of duration or overlap. The answer
  is the number of rows; every error goes to the error handler as it is.
\<close>

definition bulkCreateTurnos :: "db \<Rightarrow> string \<Rightarrow> turno_data list \<Rightarrow> api_error + (db \<times> nat)" where
  "bulkCreateTurnos st ident turnos_body =
    (case find (\<lambda>p. pid p = ident \<and> p_eliminadoEn p = None) (peliculas st) of
      None \<Rightarrow> Inl (createError 404 PeliculaNoEncontrada ''MOVIE_NOT_FOUND'')
    | Some pelicula \<Rightarrow>
        (case prisma_turno_createMany st
                (map (\<lambda>turno. turno\<lparr>d_peliculaId := ident\<rparr>) turnos_body) of
           Inl e \<Rightarrow> Inl e
         | Inr st' \<Rightarrow> Inr (st', length turnos_body)))"

text \<open>
  \<^verbatim>\<open>createPelicula\<close>, \<^verbatim>\<open>updatePelicula\<close> and \<^verbatim>\<open>deletePelicula\<close> write table
  \<^verbatim>\<open>peliculas\<close> only: a row is added, or the columns of one row change (a delete sets
  its \<^verbatim>\<open>eliminadoEn\<close>); no row is removed and no id changes. The three are taken together
  as the step to any catalogue that still has every id of the present one.
\<close>

definition cambiar_peliculas :: "pelicula list \<Rightarrow> db \<Rightarrow> db" where
  "cambiar_peliculas ps st =
    (if list_all (\<lambda>p. list_ex (\<lambda>q. pid q = pid p) ps) (peliculas st)
     then st\<lparr>peliculas := ps\<rparr> else st)"

section \<open>Runs of the controllers\<close>

text \<open>
  One request, with the clock's reading when it is served (for a batch of
  \<^verbatim>\<open>createMultipleTurnos\<close>, the reading at each item). These are all the requests that
  write either table. A request that fails leaves the tables as they were, but for a
  batch that an item's error ends, whose earlier rows stay.
\<close>

datatype operacion =
    Crear int turno_data
  | Actualizar int nat update_data
  | Eliminar int nat
  | CrearMultiples "nat \<Rightarrow> int" "turno_data option list"
  | BulkCreate string "turno_data list"
  | Peliculas "pelicula list"

fun aplicar :: "operacion \<Rightarrow> db \<Rightarrow> db" where
  "aplicar (Crear ahora body) st =
     (case createTurno ahora st body of Inl e \<Rightarrow> st | Inr (st', t) \<Rightarrow> st')"
| "aplicar (Actualizar ahora i updateData) st =
     (case updateTurno ahora st i updateData of Inl e \<Rightarrow> st | Inr (st', t) \<Rightarrow> st')"
| "aplicar (Eliminar ahora i) st =
     (case deleteTurno ahora st i of Inl e \<Rightarrow> st | Inr st' \<Rightarrow> st')"
| "aplicar (CrearMultiples reloj ts) st = snd (createMultipleTurnos reloj st ts)"
| "aplicar (BulkCreate ident ts) st =
     (case bulkCreateTurnos st ident ts of Inl e \<Rightarrow> st | Inr (st', n) \<Rightarrow> st')"
| "aplicar (Peliculas ps) st = cambiar_peliculas ps st"

definition ejecutar :: "operacion list \<Rightarrow> db \<Rightarrow> db" where
  "ejecutar ops st = fold aplicar ops st"

text \<open>The empty schedule over a catalogue of peliculas.\<close>

definition vacio :: "pelicula list \<Rightarrow> db" where
  "vacio ps = \<lparr>peliculas = ps, turnos = [], siguienteId = 0\<rparr>"

text \<open>A turno that takes part in the overlap rule: \<^verbatim>\<open>ACTIVO\<close> or \<^verbatim>\<open>INACTIVO\<close>, not deleted.\<close>

definition vigente :: "turno \<Rightarrow> bool" where
  "vigente t = ((estado t = ACTIVO \<or> estado t = INACTIVO) \<and> eliminadoEn t = None)"

text \<open>
  What the storage layer keeps true of the tables in every run: ids are distinct and
  below the counter, no range ends before it starts, every turno has its pelicula, and no
  two rows of a sala have ranges that share a point.
\<close>

definition consistente :: "db \<Rightarrow> bool" where
  "consistente st =
    (distinct (map tid (turnos st))
   \<and> (\<forall>t\<in>set (turnos st).
        tid t < siguienteId st \<and> inicio t \<le> fin t
      \<and> (\<exists>p\<in>set (peliculas st). pid p = peliculaId t))
   \<and> (\<forall>a\<in>set (turnos st). \<forall>b\<in>set (turnos st).
        tid a \<noteq> tid b \<and> sala a = sala b
        \<longrightarrow> \<not> rangos_solapan (inicio a) (fin a) (inicio b) (fin b)))"

section \<open>Example data\<close>

text \<open>
  Two peliculas of 90 and 60 minutes. Times are milliseconds of one day: 10:00 is
  36000000, 11:00 is 39600000, 11:45 is 42300000, 12:00 is 43200000, 12:15 is 44100000,
  13:15 is 47700000.
\<close>

definition ej_peliculas :: "pelicula list" where
  "ej_peliculas =
    [\<lparr>pid = ''p1'', titulo = ''Film'', duracionMin = 90, p_eliminadoEn = None\<rparr>,
     \<lparr>pid = ''p2'', titulo = ''Corto'', duracionMin = 60, p_eliminadoEn = None\<rparr>]"

text \<open>Sala A1 at 10:00 with the 90-minute pelicula; the caller's \<^verbatim>\<open>fin\<close> is 12:00.\<close>

definition ej_item1 :: turno_data where
  "ej_item1 = \<lparr>d_id = None, d_peliculaId = ''p1'', d_sala = ''A1'', d_inicio = Some 36000000,
               d_fin = Some 43200000, d_estado = None, d_eliminadoEn = None\<rparr>"

definition ej_turno1 :: turno where
  "ej_turno1 = \<lparr>tid = 0, peliculaId = ''p1'', sala = ''A1'', inicio = 36000000,
                fin = 42300000, estado = ACTIVO, eliminadoEn = None\<rparr>"

definition ej_st1 :: db where
  "ej_st1 = \<lparr>peliculas = ej_peliculas, turnos = [ej_turno1], siguienteId = 1\<rparr>"

text \<open>Sala A1 at 12:00 with the 60-minute pelicula.\<close>

definition ej_item2 :: turno_data where
  "ej_item2 = \<lparr>d_id = None, d_peliculaId = ''p2'', d_sala = ''A1'', d_inicio = Some 43200000,
               d_fin = None, d_estado = None, d_eliminadoEn = None\<rparr>"

definition ej_turno2 :: turno where
  "ej_turno2 = \<lparr>tid = 1, peliculaId = ''p2'', sala = ''A1'', inicio = 43200000,
                fin = 47700000, estado = ACTIVO, eliminadoEn = None\<rparr>"

definition ej_st2 :: db where
  "ej_st2 = \<lparr>peliculas = ej_peliculas, turnos = [ej_turno1, ej_turno2], siguienteId = 2\<rparr>"

text \<open>Sala A1 at 11:00 with the 60-minute pelicula: inside the first turno's window.\<close>

definition ej_item_solapa :: turno_data where
  "ej_item_solapa = \<lparr>d_id = None, d_peliculaId = ''p2'', d_sala = ''A1'', d_inicio = Some 39600000,
                     d_fin = Some 44100000, d_estado = None, d_eliminadoEn = None\<rparr>"

text \<open>The first turno after \<^verbatim>\<open>deleteTurno\<close> at clock reading 77.\<close>

definition ej_turno1_del :: turno where
  "ej_turno1_del = \<lparr>tid = 0, peliculaId = ''p1'', sala = ''A1'', inicio = 36000000,
                    fin = 42300000, estado = CANCELADO, eliminadoEn = Some 77\<rparr>"

definition ej_st1_del :: db where
  "ej_st1_del = \<lparr>peliculas = ej_peliculas, turnos = [ej_turno1_del], siguienteId = 1\<rparr>"

text \<open>A batch of three: A1 10:00-11:45, A1 11:00-12:15, B2 11:00-12:15.\<close>

definition ej_lote1 :: turno_data where
  "ej_lote1 = \<lparr>d_id = None, d_peliculaId = ''p1'', d_sala = ''A1'', d_inicio = Some 36000000,
               d_fin = Some 42300000, d_estado = None, d_eliminadoEn = None\<rparr>"

definition ej_lote3 :: turno_data where
  "ej_lote3 = \<lparr>d_id = None, d_peliculaId = ''p2'', d_sala = ''B2'', d_inicio = Some 39600000,
               d_fin = Some 44100000, d_estado = None, d_eliminadoEn = None\<rparr>"

definition ej_turno_b2 :: turno where
  "ej_turno_b2 = \<lparr>tid = 1, peliculaId = ''p2'', sala = ''B2'', inicio = 39600000,
                  fin = 44100000, estado = ACTIVO, eliminadoEn = None\<rparr>"

text \<open>Two turnos with the same window, in salas A1 and A2, and patches of the first.\<close>

definition ej_turno_a2 :: turno where
  "ej_turno_a2 = \<lparr>tid = 1, peliculaId = ''p1'', sala = ''A2'', inicio = 36000000,
                  fin = 42300000, estado = ACTIVO, eliminadoEn = None\<rparr>"

definition ej_st_a1_a2 :: db where
  "ej_st_a1_a2 =
    \<lparr>peliculas = ej_peliculas, turnos = [ej_turno1, ej_turno_a2], siguienteId = 2\<rparr>"

definition ej_patch_sala :: "string \<Rightarrow> update_data" where
  "ej_patch_sala s = \<lparr>b_peliculaId = None, b_sala = Some s, b_inicio = None, b_fin = None,
                      b_estado = None\<rparr>"

definition ej_patch_sala_inicio :: "string \<Rightarrow> int \<Rightarrow> update_data" where
  "ej_patch_sala_inicio s i = \<lparr>b_peliculaId = None, b_sala = Some s,
                               b_inicio = Some (Some i), b_fin = None, b_estado = None\<rparr>"

text \<open>A patch of the window alone, and one of the sala and the window.\<close>

definition ej_patch_horario :: "int \<Rightarrow> int \<Rightarrow> update_data" where
  "ej_patch_horario a b = \<lparr>b_peliculaId = None, b_sala = None, b_inicio = Some (Some a),
                           b_fin = Some (Some b), b_estado = None\<rparr>"

definition ej_patch_sala_horario :: "string \<Rightarrow> int \<Rightarrow> int \<Rightarrow> update_data" where
  "ej_patch_sala_horario s a b = \<lparr>b_peliculaId = None, b_sala = Some s,
                                  b_inicio = Some (Some a), b_fin = Some (Some b),
                                  b_estado = None\<rparr>"

text \<open>
  A row for \<^verbatim>\<open>bulkCreateTurnos\<close>: sala A1, \<^verbatim>\<open>inicio\<close> and \<^verbatim>\<open>fin\<close> both 10:30 (37800000),
  and the table after it is inserted next to the first turno.
\<close>

definition ej_fila_vacia :: turno_data where
  "ej_fila_vacia = \<lparr>d_id = None, d_peliculaId = ''p1'', d_sala = ''A1'',
                    d_inicio = Some 37800000, d_fin = Some 37800000, d_estado = None,
                    d_eliminadoEn = None\<rparr>"

definition ej_turno_vacio :: turno where
  "ej_turno_vacio = \<lparr>tid = 1, peliculaId = ''p1'', sala = ''A1'', inicio = 37800000,
                     fin = 37800000, estado = ACTIVO, eliminadoEn = None\<rparr>"

definition ej_st_vacia :: db where
  "ej_st_vacia =
    \<lparr>peliculas = ej_peliculas, turnos = [ej_turno1, ej_turno_vacio], siguienteId = 2\<rparr>"

text \<open>An item whose pelicula is not in the catalogue.\<close>

definition ej_item_sin_pelicula :: turno_data where
  "ej_item_sin_pelicula = \<lparr>d_id = None, d_peliculaId = ''zz'', d_sala = ''A1'',
                           d_inicio = Some 36000000, d_fin = Some 42300000, d_estado = None,
                           d_eliminadoEn = None\<rparr>"

text \<open>The first turno as a batch stores it: with the item's own \<^verbatim>\<open>fin\<close>, 12:00.\<close>

definition ej_turno1_lote :: turno where
  "ej_turno1_lote = \<lparr>tid = 0, peliculaId = ''p1'', sala = ''A1'', inicio = 36000000,
                     fin = 43200000, estado = ACTIVO, eliminadoEn = None\<rparr>"

section \<open>Properties of the validators\<close>

text \<open>
  C2. For a candidate \<open>[s1, e1)\<close> with \<open>s1 < e1\<close> and a stored turno with
  \<open>inicio < fin\<close>, the four-case disjunction of the query of \<^verbatim>\<open>validateTurnoOverlap\<close>
  holds exactly when the half-open ranges intersect: \<open>s1 < fin\<close> and \<open>inicio < e1\<close>.
\<close>

theorem solapa_iff_half_open:
  assumes "s1 < e1" and "inicio t < fin t"
  shows "solapa s1 e1 t \<longleftrightarrow> (s1 < fin t \<and> inicio t < e1)"
  using assms unfolding solapa_def by auto

theorem solapa_iff_half_open_witness:
  "(10::int) < 20
   \<and> inicio \<lparr>tid = 0, peliculaId = ''p'', sala = ''A1'', inicio = 15, fin = 30,
        estado = ACTIVO, eliminadoEn = None\<rparr>
     < fin \<lparr>tid = 0, peliculaId = ''p'', sala = ''A1'', inicio = 15, fin = 30,
        estado = ACTIVO, eliminadoEn = None\<rparr>
   \<and> (solapa 10 20 \<lparr>tid = 0, peliculaId = ''p'', sala = ''A1'', inicio = 15, fin = 30,
        estado = ACTIVO, eliminadoEn = None\<rparr>
      \<longleftrightarrow> ((10::int) < 30 \<and> (15::int) < 20))"
  using solapa_iff_half_open [of 10 20 "\<lparr>tid = 0, peliculaId = ''p'', sala = ''A1'',
      inicio = 15, fin = 30, estado = ACTIVO, eliminadoEn = None\<rparr>"]
  by simp

lemma floor_div_bounds:
  fixes a b :: int
  assumes "0 < b"
  shows "a div b * b \<le> a \<and> a < (a div b + 1) * b"
proof -
  have m: "0 \<le> a mod b" "a mod b < b" using assms by simp_all
  have e: "a div b * b + a mod b = a" by simp
  have d: "(a div b + 1) * b = a div b * b + b" by (simp add: distrib_right)
  show ?thesis unfolding d using m e by linarith
qed

text \<open>
  C6. \<^verbatim>\<open>validateTurnoDuration\<close> reports the first rule that fails, in this order: an
  Invalid Date; \<open>fin \<le> inicio\<close>; \<open>inicio\<close> before the clock's reading; fewer whole
  minutes than the pelicula's duration plus 15 (the message carries the minutes of the
  turno, the minimum and the duration); more than 240 whole minutes. It is valid exactly
  when none fails. The minutes are the floor of the difference over 60000 ms.
\<close>

theorem validateTurnoDuration_rules:
  "validateTurnoDuration ahora None finD d = Invalido FechasInvalidas
   \<and> validateTurnoDuration ahora inicioD None d = Invalido FechasInvalidas
   \<and> validateTurnoDuration ahora (Some s) (Some e) d =
       (if e \<le> s then Invalido FinNoPosterior
        else if s < ahora then Invalido InicioEnPasado
        else if (e - s) div 60000 < d + 15
          then Invalido (DuracionInsuficiente ((e - s) div 60000) (d + 15) d)
        else if (e - s) div 60000 > 240 then Invalido DuracionExcesiva
        else Valido)
   \<and> (valido (validateTurnoDuration ahora inicioD finD d) \<longleftrightarrow>
        (\<exists>s e. inicioD = Some s \<and> finD = Some e \<and> s < e \<and> ahora \<le> s
               \<and> d + 15 \<le> (e - s) div 60000 \<and> (e - s) div 60000 \<le> 240))
   \<and> ((e - s) div 60000) * 60000 \<le> e - s \<and> e - s < ((e - s) div 60000 + 1) * 60000"
proof (intro conjI)
  show "validateTurnoDuration ahora None finD d = Invalido FechasInvalidas"
    by (simp add: validateTurnoDuration_def)
  show "validateTurnoDuration ahora inicioD None d = Invalido FechasInvalidas"
    by (simp add: validateTurnoDuration_def split: option.splits)
  show "validateTurnoDuration ahora (Some s) (Some e) d =
       (if e \<le> s then Invalido FinNoPosterior
        else if s < ahora then Invalido InicioEnPasado
        else if (e - s) div 60000 < d + 15
          then Invalido (DuracionInsuficiente ((e - s) div 60000) (d + 15) d)
        else if (e - s) div 60000 > 240 then Invalido DuracionExcesiva
        else Valido)"
    by (simp add: validateTurnoDuration_def Let_def)
  show "valido (validateTurnoDuration ahora inicioD finD d) \<longleftrightarrow>
        (\<exists>s e. inicioD = Some s \<and> finD = Some e \<and> s < e \<and> ahora \<le> s
               \<and> d + 15 \<le> (e - s) div 60000 \<and> (e - s) div 60000 \<le> 240)"
    by (cases inicioD; cases finD) (auto simp: validateTurnoDuration_def Let_def)
  show "((e - s) div 60000) * 60000 \<le> e - s"
    using floor_div_bounds [of 60000 "e - s"] by simp
  show "e - s < ((e - s) div 60000 + 1) * 60000"
    using floor_div_bounds [of 60000 "e - s"] by simp
qed

text \<open>
  C9 (as amended). The validation instant is the clock's reading inside the function, not
  an argument of the caller. The result depends on that reading only through the test
  \<open>inicio < ahora\<close>: two calls with equal arguments whose readings are on the same side of
  \<open>inicio\<close> (equal readings in particular) return the same result.
\<close>

theorem validateTurnoDuration_clock:
  "validateTurnoDuration n1 None finD d = validateTurnoDuration n2 None finD d
   \<and> ((s < n1) = (s < n2) \<longrightarrow>
        validateTurnoDuration n1 (Some s) finD d = validateTurnoDuration n2 (Some s) finD d)"
  by (cases finD) (auto simp: validateTurnoDuration_def Let_def)

theorem validateTurnoDuration_clock_witness:
  "((1000::int) < 0) = ((1000::int) < 500) \<and>
   validateTurnoDuration 0 (Some 1000) (Some 6301000) 90
     = validateTurnoDuration 500 (Some 1000) (Some 6301000) 90"
proof -
  have h: "((1000::int) < 0) = ((1000::int) < 500)" by simp
  from validateTurnoDuration_clock [of 0 "Some 6301000" 90 500 1000] h show ?thesis by blast
qed

text \<open>
  As stated, C9 fails: the same three arguments give different results at two readings of
  the clock.
\<close>

theorem validateTurnoDuration_clock_counterexample:
  "validateTurnoDuration 0 (Some 1000) (Some 6301000) 90 = Valido
   \<and> validateTurnoDuration 2000 (Some 1000) (Some 6301000) 90 = Invalido InicioEnPasado"
  by (simp add: validateTurnoDuration_def)

section \<open>The example data, evaluated\<close>

lemmas ej_defs = ej_peliculas_def ej_item1_def ej_turno1_def ej_st1_def ej_item2_def
  ej_turno2_def ej_st2_def ej_item_solapa_def ej_turno1_del_def ej_st1_del_def ej_lote1_def
  ej_lote3_def ej_turno_b2_def ej_turno_a2_def ej_st_a1_a2_def ej_patch_sala_def
  ej_patch_sala_inicio_def ej_patch_horario_def ej_patch_sala_horario_def ej_fila_vacia_def
  ej_turno_vacio_def ej_st_vacia_def ej_turno1_lote_def ej_item_sin_pelicula_def vacio_def

lemmas eval_defs = createTurno_def createTurno_try_def validateTurnoDuration_def
  validateTurnoOverlap_def where_solapados_def solapa_def new_Date_def
  prisma_turno_create_def comprobar_fila_def viola_exclusion_def rangos_solapan_def
  es_conflicto_db_def createError_def Let_def

lemma ej_crear1: "createTurno 0 (vacio ej_peliculas) ej_item1 = Inr (ej_st1, ej_turno1)"
  by (simp add: ej_defs eval_defs)

lemma ej_crear2: "createTurno 0 ej_st1 ej_item2 = Inr (ej_st2, ej_turno2)"
  by (simp add: ej_defs eval_defs)

lemma ej_ejecutar2:
  "ejecutar [Crear 0 ej_item1, Crear 0 ej_item2] (vacio ej_peliculas) = ej_st2"
  by (simp add: ejecutar_def ej_crear1 ej_crear2)

lemma es_conflicto_db_exclusion: "es_conflicto_db error_exclusion"
proof -
  have "incluye_restriccion (message error_exclusion)"
    by (simp only: error_exclusion_def api_error.simps incluye_restriccion.simps
          sublist_append_leftI)
  then show ?thesis by (simp only: es_conflicto_db_def simp_thms)
qed

lemma corto_no_incluye:
  "length s < length nombre_restriccion \<Longrightarrow> \<not> sublist nombre_restriccion s"
  using sublist_length_le [of nombre_restriccion s] by auto

lemma ej_no_conflicto_db:
  "\<not> es_conflicto_db (createError 409 (ConflictoHorarioSala ''A1'' ''Film'' i f)
        ''SCHEDULE_CONFLICT'')"
proof -
  have "length ''A1'' < length nombre_restriccion" "length ''Film'' < length nombre_restriccion"
    by (simp_all add: nombre_restriccion_def)
  then show ?thesis
    by (simp add: es_conflicto_db_def createError_def corto_no_incluye)
qed

lemma ej_find_p1:
  "find (\<lambda>p. pid p = d_peliculaId ej_item1 \<and> p_eliminadoEn p = None) (peliculas ej_st1_del)
     = Some \<lparr>pid = ''p1'', titulo = ''Film'', duracionMin = 90, p_eliminadoEn = None\<rparr>"
  by (simp add: ej_defs)

lemma ej_find_p2:
  "find (\<lambda>p. pid p = d_peliculaId ej_item_solapa \<and> p_eliminadoEn p = None) (peliculas ej_st1)
     = Some \<lparr>pid = ''p2'', titulo = ''Corto'', duracionMin = 60, p_eliminadoEn = None\<rparr>"
  by (simp add: ej_defs)


section \<open>What every run keeps true\<close>

lemma consistente_vacio: "consistente (vacio ps)"
  by (simp add: consistente_def vacio_def)

lemma rangos_solapan_sym: "rangos_solapan a1 b1 a2 b2 = rangos_solapan a2 b2 a1 b1"
  by (auto simp: rangos_solapan_def)

lemma validateTurnoDuration_Valido:
  "validateTurnoDuration ahora a b d = Valido \<Longrightarrow> \<exists>i f. a = Some i \<and> b = Some f \<and> i < f"
  by (auto simp: validateTurnoDuration_def Let_def split: option.splits if_splits)

lemma comprobar_fila_None:
  "comprobar_fila st r otras = None \<Longrightarrow>
     inicio r \<le> fin r
   \<and> (\<forall>t\<in>set otras. sala t = sala r
         \<longrightarrow> \<not> rangos_solapan (inicio t) (fin t) (inicio r) (fin r))
   \<and> (\<exists>p\<in>set (peliculas st). pid p = peliculaId r)"
  by (auto simp: comprobar_fila_def viola_exclusion_def list_ex_iff split: if_splits)

lemma prisma_turno_create_Inr:
  assumes "prisma_turno_create st ident pel s i f e el = Inr (st', t)"
  shows "t = \<lparr>tid = (case ident of None \<Rightarrow> siguienteId st | Some k \<Rightarrow> k),
              peliculaId = pel, sala = s, inicio = i, fin = f, estado = e,
              eliminadoEn = el\<rparr>
       \<and> (ident \<noteq> None \<longrightarrow> (\<forall>x\<in>set (turnos st). tid x \<noteq> tid t))
       \<and> comprobar_fila st t (turnos st) = None
       \<and> st' = st\<lparr>turnos := turnos st @ [t],
                   siguienteId := max (siguienteId st) (Suc (tid t))\<rparr>"
  using assms
  by (auto simp: prisma_turno_create_def Let_def list_ex_iff split: option.splits if_splits)

lemma prisma_turno_create_consistente:
  assumes c: "consistente st"
    and ok: "prisma_turno_create st ident pel s i f e el = Inr (st', t)"
  shows "consistente st'"
proof -
  note k0 = prisma_turno_create_Inr [OF ok]
  from k0 have chk: "comprobar_fila st t (turnos st) = None"
    and st': "st' = st\<lparr>turnos := turnos st @ [t],
                       siguienteId := max (siguienteId st) (Suc (tid t))\<rparr>"
    by blast+
  note k = comprobar_fila_None [OF chk]
  have c1: "distinct (map tid (turnos st))"
    and c2: "\<And>x. x \<in> set (turnos st) \<Longrightarrow> tid x < siguienteId st \<and> inicio x \<le> fin x
                \<and> (\<exists>p\<in>set (peliculas st). pid p = peliculaId x)"
    and c3: "\<And>a b. a \<in> set (turnos st) \<Longrightarrow> b \<in> set (turnos st) \<Longrightarrow> tid a \<noteq> tid b \<Longrightarrow>
                sala a = sala b \<Longrightarrow> \<not> rangos_solapan (inicio a) (fin a) (inicio b) (fin b)"
    using c unfolding consistente_def by blast+
  have fresh: "\<forall>x\<in>set (turnos st). tid x \<noteq> tid t"
  proof (cases ident)
    case None
    then have "tid t = siguienteId st" using k0 by simp
    then show ?thesis using c2 by fastforce
  next
    case (Some n)
    then show ?thesis using k0 by blast
  qed
  have tu: "turnos st' = turnos st @ [t]" and pe: "peliculas st' = peliculas st"
    and si: "siguienteId st' = max (siguienteId st) (Suc (tid t))"
    by (simp_all add: st')
  have mem: "\<And>x. x \<in> set (turnos st') \<Longrightarrow> x = t \<or> x \<in> set (turnos st)"
    unfolding tu by auto
  have g1: "distinct (map tid (turnos st'))"
    unfolding tu using c1 fresh by auto
  have g2: "\<forall>x\<in>set (turnos st'). tid x < siguienteId st' \<and> inicio x \<le> fin x
                \<and> (\<exists>p\<in>set (peliculas st'). pid p = peliculaId x)"
  proof
    fix x assume "x \<in> set (turnos st')"
    from mem [OF this] show "tid x < siguienteId st' \<and> inicio x \<le> fin x
                \<and> (\<exists>p\<in>set (peliculas st'). pid p = peliculaId x)"
    proof
      assume "x = t" then show ?thesis using k by (simp add: pe si)
    next
      assume "x \<in> set (turnos st)"
      then show ?thesis using c2 [of x] by (auto simp: pe si)
    qed
  qed
  have g3: "\<forall>a\<in>set (turnos st'). \<forall>b\<in>set (turnos st').
        tid a \<noteq> tid b \<and> sala a = sala b
        \<longrightarrow> \<not> rangos_solapan (inicio a) (fin a) (inicio b) (fin b)"
  proof (intro ballI impI)
    fix a b
    assume a: "a \<in> set (turnos st')" and b: "b \<in> set (turnos st')"
      and ab: "tid a \<noteq> tid b \<and> sala a = sala b"
    from mem [OF a] mem [OF b] ab
    consider "a = t" "b \<in> set (turnos st)"
      | "b = t" "a \<in> set (turnos st)"
      | "a \<in> set (turnos st)" "b \<in> set (turnos st)"
      by blast
    then show "\<not> rangos_solapan (inicio a) (fin a) (inicio b) (fin b)"
    proof cases
      case 1 then show ?thesis using k ab rangos_solapan_sym by metis
    next
      case 2 then show ?thesis using k ab by metis
    next
      case 3 then show ?thesis using c3 [of a b] ab by blast
    qed
  qed
  show ?thesis unfolding consistente_def using g1 g2 g3 by blast
qed

lemma find_tid:
  "find (\<lambda>t. tid t = i) xs = Some t \<Longrightarrow> t \<in> set xs \<and> tid t = i"
  by (auto simp: find_Some_iff)

lemma tid_set_datos [simp]: "tid (set_datos d t) = tid t"
  by (simp add: set_datos_def)

lemma prisma_turno_update_Inr:
  assumes "prisma_turno_update st i d = Inr (st', r)"
  shows "\<exists>t. find (\<lambda>t. tid t = i) (turnos st) = Some t \<and> r = set_datos d t
           \<and> comprobar_fila st r (filter (\<lambda>t. tid t \<noteq> i) (turnos st)) = None
           \<and> st' = st\<lparr>turnos := map (\<lambda>t. if tid t = i then r else t) (turnos st)\<rparr>"
  using assms
  by (auto simp: prisma_turno_update_def Let_def split: option.splits)

lemma prisma_turno_update_consistente:
  assumes c: "consistente st"
    and ok: "prisma_turno_update st i d = Inr (st', r)"
  shows "consistente st'"
proof -
  from prisma_turno_update_Inr [OF ok] obtain t where
    f: "find (\<lambda>t. tid t = i) (turnos st) = Some t" and r: "r = set_datos d t"
    and chk: "comprobar_fila st r (filter (\<lambda>t. tid t \<noteq> i) (turnos st)) = None"
    and st': "st' = st\<lparr>turnos := map (\<lambda>t. if tid t = i then r else t) (turnos st)\<rparr>"
    by blast
  have ti: "tid r = i" and tin: "t \<in> set (turnos st)" using find_tid [OF f] r by auto
  note k = comprobar_fila_None [OF chk]
  have c1: "distinct (map tid (turnos st))"
    and c2: "\<And>x. x \<in> set (turnos st) \<Longrightarrow> tid x < siguienteId st \<and> inicio x \<le> fin x
                \<and> (\<exists>p\<in>set (peliculas st). pid p = peliculaId x)"
    and c3: "\<And>a b. a \<in> set (turnos st) \<Longrightarrow> b \<in> set (turnos st) \<Longrightarrow> tid a \<noteq> tid b \<Longrightarrow>
                sala a = sala b \<Longrightarrow> \<not> rangos_solapan (inicio a) (fin a) (inicio b) (fin b)"
    using c unfolding consistente_def by blast+
  have nv: "\<And>x. x \<in> set (turnos st) \<Longrightarrow> tid x \<noteq> i \<Longrightarrow> sala x = sala r \<Longrightarrow>
              \<not> rangos_solapan (inicio x) (fin x) (inicio r) (fin r)"
    using k by simp
  have tu: "turnos st' = map (\<lambda>t. if tid t = i then r else t) (turnos st)"
    and pe: "peliculas st' = peliculas st" and si: "siguienteId st' = siguienteId st"
    by (simp_all add: st')
  have ids: "map tid (turnos st') = map tid (turnos st)"
    unfolding tu using ti by (induction "turnos st") auto
  have mem: "\<And>x. x \<in> set (turnos st') \<Longrightarrow> x = r \<or> (x \<in> set (turnos st) \<and> tid x \<noteq> i)"
    unfolding tu by auto
  have lt: "tid r < siguienteId st" using c2 [OF tin] ti find_tid [OF f] by simp
  have g1: "distinct (map tid (turnos st'))" using c1 ids by simp
  have g2: "\<forall>x\<in>set (turnos st'). tid x < siguienteId st' \<and> inicio x \<le> fin x
                \<and> (\<exists>p\<in>set (peliculas st'). pid p = peliculaId x)"
  proof
    fix x assume "x \<in> set (turnos st')"
    from mem [OF this] show "tid x < siguienteId st' \<and> inicio x \<le> fin x
                \<and> (\<exists>p\<in>set (peliculas st'). pid p = peliculaId x)"
    proof
      assume "x = r" then show ?thesis using lt k by (simp add: pe si)
    next
      assume "x \<in> set (turnos st) \<and> tid x \<noteq> i"
      then show ?thesis using c2 [of x] by (simp add: pe si)
    qed
  qed
  have g3: "\<forall>a\<in>set (turnos st'). \<forall>b\<in>set (turnos st').
        tid a \<noteq> tid b \<and> sala a = sala b
        \<longrightarrow> \<not> rangos_solapan (inicio a) (fin a) (inicio b) (fin b)"
  proof (intro ballI impI)
    fix a b
    assume a: "a \<in> set (turnos st')" and b: "b \<in> set (turnos st')"
      and ab: "tid a \<noteq> tid b \<and> sala a = sala b"
    from mem [OF a] mem [OF b] ab ti
    consider "a = r" "b \<in> set (turnos st)" "tid b \<noteq> i"
      | "b = r" "a \<in> set (turnos st)" "tid a \<noteq> i"
      | "a \<in> set (turnos st)" "b \<in> set (turnos st)"
      by blast
    then show "\<not> rangos_solapan (inicio a) (fin a) (inicio b) (fin b)"
    proof cases
      case 1 then show ?thesis using nv [of b] ab rangos_solapan_sym by metis
    next
      case 2 then show ?thesis using nv [of a] ab by metis
    next
      case 3 then show ?thesis using c3 [of a b] ab by blast
    qed
  qed
  show ?thesis unfolding consistente_def using g1 g2 g3 by blast
qed

lemma new_Date_Some: "new_Date ms = Some f \<Longrightarrow> f = ms"
  by (simp add: new_Date_def split: if_splits)

lemma createTurno_Inr:
  assumes "createTurno ahora st body = Inr (st', t)"
  obtains p i where
      "find (\<lambda>p. pid p = d_peliculaId body \<and> p_eliminadoEn p = None) (peliculas st) = Some p"
      "d_inicio body = Some i"
      "validateTurnoDuration ahora (Some i) (Some (i + (duracionMin p + 15) * 60 * 1000))
         (duracionMin p) = Valido"
      "validateTurnoOverlap st (d_sala body) (Some i)
         (Some (i + (duracionMin p + 15) * 60 * 1000)) None = Valido"
      "prisma_turno_create st None (d_peliculaId body) (d_sala body) i
         (i + (duracionMin p + 15) * 60 * 1000)
         (case d_estado body of None \<Rightarrow> ACTIVO | Some e \<Rightarrow> e) None = Inr (st', t)"
proof -
  from assms have tr: "createTurno_try ahora st body = Inr (st', t)"
    by (simp add: createTurno_def split: sum.splits if_splits)
  from tr obtain p where p: "find (\<lambda>p. pid p = d_peliculaId body \<and> p_eliminadoEn p = None) (peliculas st) = Some p"
    by (auto simp: createTurno_try_def split: option.splits)
  define fd where "fd = (case d_inicio body of None \<Rightarrow> None
                       | Some i \<Rightarrow> new_Date (i + (duracionMin p + 15) * 60 * 1000))"
  from tr p have v: "validateTurnoDuration ahora (d_inicio body) fd (duracionMin p) = Valido"
    by (auto simp: createTurno_try_def Let_def fd_def split: validacion.splits)
  from validateTurnoDuration_Valido [OF v] obtain i f where
    i: "d_inicio body = Some i" and f: "fd = Some f" by blast
  have fd': "new_Date (i + (duracionMin p + 15) * 60 * 1000) = Some f"
    using f i by (simp add: fd_def)
  have f': "f = i + (duracionMin p + 15) * 60 * 1000"
    using new_Date_Some [OF fd'] .
  from tr p i fd' v f have o: "validateTurnoOverlap st (d_sala body) (Some i) (Some f) None = Valido"
    by (auto simp: createTurno_try_def Let_def split: validacion.splits)
  from tr p i fd' v f o have c: "prisma_turno_create st None (d_peliculaId body) (d_sala body) i f
         (case d_estado body of None \<Rightarrow> ACTIVO | Some e \<Rightarrow> e) None = Inr (st', t)"
    by (auto simp: createTurno_try_def Let_def split: validacion.splits)
  show thesis
    using that [OF p i] v o c unfolding i f f' by blast
qed

lemma createTurno_consistente:
  assumes "consistente st" and "createTurno ahora st body = Inr (st', t)"
  shows "consistente st'"
  by (rule createTurno_Inr [OF assms(2)]) (rule prisma_turno_create_consistente [OF assms(1)])

lemma find_vigente:
  "find (\<lambda>t. tid t = i \<and> eliminadoEn t = None) xs = Some t \<Longrightarrow> distinct (map tid xs) \<Longrightarrow>
     find (\<lambda>t. tid t = i) xs = Some t \<and> eliminadoEn t = None \<and> tid t = i \<and> t \<in> set xs"
  by (induction xs) (auto split: if_splits)

lemma deleteTurno_Inr:
  assumes "deleteTurno ahora st i = Inr st'"
  shows "\<exists>t r. find (\<lambda>t. tid t = i \<and> eliminadoEn t = None) (turnos st) = Some t
      \<and> prisma_turno_update st i
                \<lparr>u_peliculaId = None, u_sala = None, u_inicio = None, u_fin = None,
                 u_estado = Some CANCELADO, u_eliminadoEn = Some ahora\<rparr> = Inr (st', r)"
  using assms by (auto simp: deleteTurno_def split: option.splits sum.splits)

lemma deleteTurno_consistente:
  assumes c: "consistente st" and d: "deleteTurno ahora st i = Inr st'"
  shows "consistente st'"
  using deleteTurno_Inr [OF d] prisma_turno_update_consistente [OF c] by blast

lemma updateTurno_Inr:
  assumes "updateTurno ahora st i u = Inr (st', r)"
  shows "\<exists>x d. find (\<lambda>t. tid t = i \<and> eliminadoEn t = None) (turnos st) = Some x
           \<and> prisma_turno_update st i d = Inr (st', r)"
proof -
  from assms obtain x where
    x: "find (\<lambda>t. tid t = i \<and> eliminadoEn t = None) (turnos st) = Some x"
    by (auto simp: updateTurno_def split: option.splits)
  have "\<exists>d. prisma_turno_update st i d = Inr (st', r)"
    using assms x
    by (auto simp: updateTurno_def Let_def
          split: option.splits validacion.splits if_splits)
  then show ?thesis using x by blast
qed

lemma updateTurno_consistente:
  assumes c: "consistente st" and u: "updateTurno ahora st i ud = Inr (st', r)"
  shows "consistente st'"
  using updateTurno_Inr [OF u] prisma_turno_update_consistente [OF c] by blast

lemma processTurnoItem_no_pelicula:
  assumes "find (\<lambda>p. pid p = d_peliculaId x \<and> p_eliminadoEn p = None) (peliculas (l_db l))
             = None"
  shows "processTurnoItem ahora l (Some x) k =
           Inr (l\<lparr>errores := errores l @ [(k, PeliculaNoEncontrada, x)]\<rparr>)"
  using assms by (simp add: processTurnoItem_def)

lemma processTurnoItem_duracion:
  assumes "find (\<lambda>p. pid p = d_peliculaId x \<and> p_eliminadoEn p = None) (peliculas (l_db l))
             = Some p"
    and "validateTurnoDuration ahora (d_inicio x) (d_fin x) (duracionMin p) = Invalido m"
  shows "processTurnoItem ahora l (Some x) k = Inr (l\<lparr>errores := errores l @ [(k, m, x)]\<rparr>)"
  using assms by (simp add: processTurnoItem_def)

lemma processTurnoItem_solapado:
  assumes "find (\<lambda>p. pid p = d_peliculaId x \<and> p_eliminadoEn p = None) (peliculas (l_db l))
             = Some p"
    and "validateTurnoDuration ahora (d_inicio x) (d_fin x) (duracionMin p) = Valido"
    and "validateTurnoOverlap (l_db l) (d_sala x) (d_inicio x) (d_fin x) None = Invalido m"
  shows "processTurnoItem ahora l (Some x) k = Inr (l\<lparr>errores := errores l @ [(k, m, x)]\<rparr>)"
  using assms by (simp add: processTurnoItem_def)

lemma processTurnoItem_insert:
  assumes "find (\<lambda>p. pid p = d_peliculaId x \<and> p_eliminadoEn p = None) (peliculas (l_db l))
             = Some p"
    and "validateTurnoDuration ahora (d_inicio x) (d_fin x) (duracionMin p) = Valido"
    and "validateTurnoOverlap (l_db l) (d_sala x) (d_inicio x) (d_fin x) None = Valido"
    and "d_inicio x = Some a" and "d_fin x = Some b"
  shows "processTurnoItem ahora l (Some x) k =
           Inr (case prisma_turno_create (l_db l) (d_id x) (d_peliculaId x) (d_sala x) a b
                       (case d_estado x of None \<Rightarrow> ACTIVO | Some e \<Rightarrow> e) (d_eliminadoEn x) of
                  Inr (st', t) \<Rightarrow> l\<lparr>l_db := st', turnosCreados := turnosCreados l @ [t]\<rparr>
                | Inl err \<Rightarrow>
                    l\<lparr>errores := errores l
                        @ [(k, if es_conflicto_db err then ConflictoHorarioDBItem
                               else message err, x)]\<rparr>)"
  using assms
  by (simp add: processTurnoItem_def split: sum.splits)

lemma processTurnoItem_cases:
  "(\<exists>m. processTurnoItem ahora l (Some x) k = Inr (l\<lparr>errores := errores l @ [(k, m, x)]\<rparr>))
   \<or> (\<exists>st' t p i f.
        find (\<lambda>p. pid p = d_peliculaId x \<and> p_eliminadoEn p = None) (peliculas (l_db l))
          = Some p
        \<and> validateTurnoDuration ahora (Some i) (Some f) (duracionMin p) = Valido
        \<and> d_inicio x = Some i \<and> d_fin x = Some f
        \<and> prisma_turno_create (l_db l) (d_id x) (d_peliculaId x) (d_sala x) i f
            (case d_estado x of None \<Rightarrow> ACTIVO | Some e \<Rightarrow> e) (d_eliminadoEn x)
            = Inr (st', t)
        \<and> processTurnoItem ahora l (Some x) k =
            Inr (l\<lparr>l_db := st', turnosCreados := turnosCreados l @ [t]\<rparr>))"
proof (cases "find (\<lambda>p. pid p = d_peliculaId x \<and> p_eliminadoEn p = None) (peliculas (l_db l))")
  case None
  from processTurnoItem_no_pelicula [OF None] show ?thesis by blast
next
  case (Some p)
  show ?thesis
  proof (cases "validateTurnoDuration ahora (d_inicio x) (d_fin x) (duracionMin p)")
    case (Invalido m)
    from processTurnoItem_duracion [OF Some Invalido] show ?thesis by blast
  next
    case Valido
    from validateTurnoDuration_Valido [OF Valido] obtain i f where
      d: "d_inicio x = Some i" "d_fin x = Some f" by blast
    show ?thesis
    proof (cases "validateTurnoOverlap (l_db l) (d_sala x) (d_inicio x) (d_fin x) None")
      case (Invalido m)
      from processTurnoItem_solapado [OF Some Valido Invalido] show ?thesis by blast
    next
      case v2: Valido
      note ins = processTurnoItem_insert [OF Some Valido v2 d, of k]
      show ?thesis
      proof (cases "prisma_turno_create (l_db l) (d_id x) (d_peliculaId x) (d_sala x) i f
            (case d_estado x of None \<Rightarrow> ACTIVO | Some e \<Rightarrow> e) (d_eliminadoEn x)")
        case (Inl err)
        then have "processTurnoItem ahora l (Some x) k =
            Inr (l\<lparr>errores := errores l @
              [(k, if es_conflicto_db err then ConflictoHorarioDBItem else message err, x)]\<rparr>)"
          using ins by simp
        then show ?thesis by blast
      next
        case (Inr pr)
        obtain st' t where pr: "pr = (st', t)" by (cases pr)
        have "processTurnoItem ahora l (Some x) k =
            Inr (l\<lparr>l_db := st', turnosCreados := turnosCreados l @ [t]\<rparr>)"
          using ins Inr pr by simp
        then show ?thesis using Some Valido d Inr pr by auto
      qed
    qed
  qed
qed

lemma processTurnoItem_consistente:
  assumes "consistente (l_db l)" and "processTurnoItem ahora l x k = Inr l'"
  shows "consistente (l_db l')"
proof (cases x)
  case None
  then show ?thesis using assms by (simp add: processTurnoItem_def)
next
  case (Some d)
  then show ?thesis
    using processTurnoItem_cases [of ahora l d k] assms
    by (auto dest: prisma_turno_create_consistente)
qed

lemma procesar_consistente:
  "consistente (l_db l) \<Longrightarrow> consistente (l_db (snd (procesar reloj l xs k)))"
proof (induction xs arbitrary: l k)
  case Nil
  then show ?case by simp
next
  case (Cons x xs)
  show ?case
  proof (cases "processTurnoItem (reloj k) l x k")
    case (Inl e)
    then show ?thesis using Cons.prems by simp
  next
    case (Inr l')
    from processTurnoItem_consistente [OF Cons.prems Inr] have "consistente (l_db l')" .
    from Cons.IH [OF this] show ?thesis using Inr by simp
  qed
qed

lemma createMultipleTurnos_db:
  "snd (createMultipleTurnos reloj st ts) = st
   \<or> snd (createMultipleTurnos reloj st ts) =
        l_db (snd (procesar reloj \<lparr>l_db = st, turnosCreados = [], errores = []\<rparr> ts 0))"
  by (auto simp: createMultipleTurnos_def split: prod.splits option.splits)

lemma insertar_filas_consistente:
  "consistente st \<Longrightarrow> insertar_filas st ds = Inr st' \<Longrightarrow> consistente st'"
proof (induction ds arbitrary: st)
  case Nil
  then show ?case by simp
next
  case (Cons d ds)
  from Cons.prems(2) obtain i f st1 t where
    c: "prisma_turno_create st (d_id d) (d_peliculaId d) (d_sala d) i f
          (case d_estado d of None \<Rightarrow> ACTIVO | Some e \<Rightarrow> e) (d_eliminadoEn d) = Inr (st1, t)"
    and r: "insertar_filas st1 ds = Inr st'"
    by (auto split: option.splits sum.splits)
  from prisma_turno_create_consistente [OF Cons.prems(1) c] have "consistente st1" .
  from Cons.IH [OF this r] show ?case .
qed

lemma bulkCreateTurnos_Inr:
  assumes "bulkCreateTurnos st ident ts = Inr (st', n)"
  shows "insertar_filas st (map (\<lambda>turno. turno\<lparr>d_peliculaId := ident\<rparr>) ts) = Inr st'"
  using assms
  by (auto simp: bulkCreateTurnos_def prisma_turno_createMany_def
        split: option.splits sum.splits if_splits)

lemma bulkCreateTurnos_consistente:
  assumes "consistente st" and "bulkCreateTurnos st ident ts = Inr (st', n)"
  shows "consistente st'"
  using insertar_filas_consistente [OF assms(1) bulkCreateTurnos_Inr [OF assms(2)]] .

lemma cambiar_peliculas_consistente:
  assumes "consistente st"
  shows "consistente (cambiar_peliculas ps st)"
proof (cases "list_all (\<lambda>p. list_ex (\<lambda>q. pid q = pid p) ps) (peliculas st)")
  case False
  then show ?thesis using assms by (simp add: cambiar_peliculas_def)
next
  case True
  then have k: "\<And>p. p \<in> set (peliculas st) \<Longrightarrow> \<exists>q\<in>set ps. pid q = pid p"
    by (simp add: list_all_iff list_ex_iff)
  have fk: "\<forall>t\<in>set (turnos st). \<exists>q\<in>set ps. pid q = peliculaId t"
  proof
    fix t assume "t \<in> set (turnos st)"
    then obtain p where "p \<in> set (peliculas st)" "pid p = peliculaId t"
      using assms unfolding consistente_def by blast
    then show "\<exists>q\<in>set ps. pid q = peliculaId t" using k [of p] by auto
  qed
  have e: "cambiar_peliculas ps st = st\<lparr>peliculas := ps\<rparr>"
    using True by (simp add: cambiar_peliculas_def)
  show ?thesis unfolding e using assms fk by (simp add: consistente_def)
qed

lemma aplicar_consistente: "consistente st \<Longrightarrow> consistente (aplicar op st)"
proof (cases op)
  case (Crear ahora body)
  assume "consistente st"
  then show ?thesis using Crear
    by (auto split: sum.splits dest: createTurno_consistente)
next
  case (Actualizar ahora i u)
  assume "consistente st"
  then show ?thesis using Actualizar
    by (auto split: sum.splits dest: updateTurno_consistente)
next
  case (Eliminar ahora i)
  assume "consistente st"
  then show ?thesis using Eliminar
    by (auto split: sum.splits dest: deleteTurno_consistente)
next
  case (CrearMultiples reloj ts)
  assume c: "consistente st"
  then have "consistente (l_db (snd (procesar reloj \<lparr>l_db = st, turnosCreados = [], errores = []\<rparr> ts 0)))"
    by (intro procesar_consistente) simp
  then show ?thesis using CrearMultiples c createMultipleTurnos_db [of reloj st ts]
    by auto
next
  case (BulkCreate ident ts)
  assume "consistente st"
  then show ?thesis using BulkCreate
    by (auto split: sum.splits dest: bulkCreateTurnos_consistente)
next
  case (Peliculas ps)
  assume "consistente st"
  then show ?thesis using Peliculas by (simp add: cambiar_peliculas_consistente)
qed

lemma ejecutar_consistente_desde:
  "consistente st \<Longrightarrow> consistente (ejecutar ops st)"
  unfolding ejecutar_def
  by (induction ops arbitrary: st) (auto intro: aplicar_consistente)

lemma ejecutar_consistente: "consistente (ejecutar ops (vacio ps))"
  by (rule ejecutar_consistente_desde [OF consistente_vacio])

lemma distinct_tid_eq:
  "distinct (map tid xs) \<Longrightarrow> a \<in> set xs \<Longrightarrow> b \<in> set xs \<Longrightarrow> tid a = tid b \<Longrightarrow> a = b"
  by (meson distinct_map inj_onD)

section \<open>The non-overlap invariant\<close>

lemma ej_bulk_vacia: "bulkCreateTurnos ej_st1 ''p1'' [ej_fila_vacia] = Inr (ej_st_vacia, 1)"
  by (simp add: ej_defs bulkCreateTurnos_def prisma_turno_createMany_def
        prisma_turno_create_def comprobar_fila_def viola_exclusion_def rangos_solapan_def
        Let_def)

text \<open>
  C1. The invariant fails in a state that two requests reach from the empty schedule.
  \<^verbatim>\<open>createTurno\<close> stores a turno in sala A1 from 10:00 to 11:45; then
  \<^verbatim>\<open>bulkCreateTurnos\<close>, which validates nothing, inserts a row of sala A1 whose \<^verbatim>\<open>inicio\<close>
  and \<^verbatim>\<open>fin\<close> are both 10:30. Its range is empty, so the exclusion constraint admits
  it. The two rows are distinct, of the same sala, \<^verbatim>\<open>ACTIVO\<close> and not deleted, and
  \<open>a.inicio < b.fin\<close> and \<open>b.inicio < a.fin\<close> both hold.
\<close>

theorem bulkCreateTurnos_breaks_no_overlap:
  "ejecutar [Crear 0 ej_item1, BulkCreate ''p1'' [ej_fila_vacia]] (vacio ej_peliculas)
     = ej_st_vacia
   \<and> turnos ej_st_vacia = [ej_turno1, ej_turno_vacio]
   \<and> ej_turno1 \<noteq> ej_turno_vacio \<and> sala ej_turno1 = sala ej_turno_vacio
   \<and> vigente ej_turno1 \<and> vigente ej_turno_vacio
   \<and> inicio ej_turno1 < fin ej_turno_vacio \<and> inicio ej_turno_vacio < fin ej_turno1"
proof -
  have "ejecutar [Crear 0 ej_item1, BulkCreate ''p1'' [ej_fila_vacia]] (vacio ej_peliculas)
     = ej_st_vacia"
    by (simp add: ejecutar_def ej_crear1 ej_bulk_vacia)
  moreover have "turnos ej_st_vacia = [ej_turno1, ej_turno_vacio]"
    by (simp add: ej_st_vacia_def)
  moreover have "ej_turno1 \<noteq> ej_turno_vacio \<and> sala ej_turno1 = sala ej_turno_vacio
   \<and> vigente ej_turno1 \<and> vigente ej_turno_vacio
   \<and> inicio ej_turno1 < fin ej_turno_vacio \<and> inicio ej_turno_vacio < fin ej_turno1"
    by (simp add: ej_turno1_def ej_turno_vacio_def vigente_def)
  ultimately show ?thesis by blast
qed

text \<open>
  What the storage layer does keep in every run, whatever the requests: the ranges of two
  distinct rows of a sala share no point, whatever the rows' \<^verbatim>\<open>estado\<close> and
  \<^verbatim>\<open>eliminadoEn\<close>; for two rows with \<open>inicio < fin\<close> that is the invariant's formula.
\<close>

lemma ejecutar_sin_interseccion:
  assumes "a \<in> set (turnos (ejecutar ops (vacio ps)))"
    and "b \<in> set (turnos (ejecutar ops (vacio ps)))"
    and "a \<noteq> b" and "sala a = sala b"
  shows "\<not> rangos_solapan (inicio a) (fin a) (inicio b) (fin b)"
    and "inicio a < fin a \<Longrightarrow> inicio b < fin b \<Longrightarrow> \<not> (inicio a < fin b \<and> inicio b < fin a)"
proof -
  have c: "consistente (ejecutar ops (vacio ps))" by (rule ejecutar_consistente)
  then have d: "distinct (map tid (turnos (ejecutar ops (vacio ps))))"
    by (simp add: consistente_def)
  have "tid a \<noteq> tid b" using distinct_tid_eq [OF d assms(1,2)] assms(3) by blast
  then show r: "\<not> rangos_solapan (inicio a) (fin a) (inicio b) (fin b)"
    using c assms unfolding consistente_def by blast
  show "inicio a < fin a \<Longrightarrow> inicio b < fin b \<Longrightarrow> \<not> (inicio a < fin b \<and> inicio b < fin a)"
    using r by (simp add: rangos_solapan_def)
qed

section \<open>Soft delete\<close>

lemma prisma_turno_create_turnos:
  "prisma_turno_create st ident pel s i f e el = Inr (st', t) \<Longrightarrow>
     turnos st' = turnos st @ [t] \<and> peliculas st' = peliculas st"
  using prisma_turno_create_Inr [of st ident pel s i f e el st' t] by simp

lemma eliminado_conservado_update:
  assumes d: "distinct (map tid (turnos st))"
    and f: "find (\<lambda>t. tid t = i \<and> eliminadoEn t = None) (turnos st) = Some x"
    and u: "prisma_turno_update st i dd = Inr (st', r)"
    and t: "t \<in> set (turnos st)" and e: "eliminadoEn t \<noteq> None"
  shows "t \<in> set (turnos st')"
proof -
  from find_vigente [OF f d] have x: "x \<in> set (turnos st)" "tid x = i" "eliminadoEn x = None"
    by auto
  have "tid t \<noteq> i" using distinct_tid_eq [OF d t x(1)] x e by auto
  moreover from prisma_turno_update_Inr [OF u]
  have "turnos st' = map (\<lambda>t. if tid t = i then r else t) (turnos st)" by auto
  ultimately show ?thesis using t by (auto simp: image_iff intro!: bexI [of _ t])
qed

lemma procesar_conserva:
  "t \<in> set (turnos (l_db l)) \<Longrightarrow> t \<in> set (turnos (l_db (snd (procesar reloj l xs k))))"
proof (induction xs arbitrary: l k)
  case Nil
  then show ?case by simp
next
  case (Cons x xs)
  show ?case
  proof (cases "processTurnoItem (reloj k) l x k")
    case (Inl e)
    then show ?thesis using Cons.prems by simp
  next
    case (Inr l')
    have "t \<in> set (turnos (l_db l'))"
    proof (cases x)
      case None
      then show ?thesis using Inr by (simp add: processTurnoItem_def)
    next
      case (Some d)
      then show ?thesis
        using processTurnoItem_cases [of "reloj k" l d k] Cons.prems Inr
        by (auto dest: prisma_turno_create_turnos)
    qed
    from Cons.IH [OF this] show ?thesis using Inr by simp
  qed
qed

lemma insertar_filas_conserva:
  "t \<in> set (turnos st) \<Longrightarrow> insertar_filas st ds = Inr st' \<Longrightarrow> t \<in> set (turnos st')"
proof (induction ds arbitrary: st)
  case Nil
  then show ?case by simp
next
  case (Cons d ds)
  from Cons.prems(2) obtain i f st1 r where
    c: "prisma_turno_create st (d_id d) (d_peliculaId d) (d_sala d) i f
          (case d_estado d of None \<Rightarrow> ACTIVO | Some e \<Rightarrow> e) (d_eliminadoEn d) = Inr (st1, r)"
    and r: "insertar_filas st1 ds = Inr st'"
    by (auto split: option.splits sum.splits)
  have "t \<in> set (turnos st1)" using prisma_turno_create_turnos [OF c] Cons.prems(1) by simp
  from Cons.IH [OF this r] show ?case .
qed

lemma aplicar_conserva:
  assumes c: "consistente st" and t: "t \<in> set (turnos st)" and e: "eliminadoEn t \<noteq> None"
  shows "t \<in> set (turnos (aplicar op st))"
proof (cases op)
  case (Crear ahora body)
  show ?thesis
  proof (cases "createTurno ahora st body")
    case (Inl a) then show ?thesis using Crear t by simp
  next
    case (Inr pr)
    obtain st' r where pr: "pr = (st', r)" by (cases pr)
    have "createTurno ahora st body = Inr (st', r)" using Inr pr by simp
    then have "turnos st' = turnos st @ [r]"
      by (rule createTurno_Inr) (auto dest: prisma_turno_create_turnos)
    then show ?thesis using Crear Inr pr t by simp
  qed
next
  case (Actualizar ahora i u)
  have d: "distinct (map tid (turnos st))" using c by (simp add: consistente_def)
  show ?thesis
  proof (cases "updateTurno ahora st i u")
    case (Inl a) then show ?thesis using Actualizar t by simp
  next
    case (Inr pr)
    obtain st' r where pr: "pr = (st', r)" by (cases pr)
    have "updateTurno ahora st i u = Inr (st', r)" using Inr pr by simp
    from updateTurno_Inr [OF this] obtain x dd where
      "find (\<lambda>t. tid t = i \<and> eliminadoEn t = None) (turnos st) = Some x"
      "prisma_turno_update st i dd = Inr (st', r)" by blast
    then have "t \<in> set (turnos st')" by (rule eliminado_conservado_update [OF d _ _ t e])
    then show ?thesis using Actualizar Inr pr by simp
  qed
next
  case (Eliminar ahora i)
  have d: "distinct (map tid (turnos st))" using c by (simp add: consistente_def)
  show ?thesis
  proof (cases "deleteTurno ahora st i")
    case (Inl a) then show ?thesis using Eliminar t by simp
  next
    case (Inr st')
    from deleteTurno_Inr [OF Inr] obtain x r where
      "find (\<lambda>t. tid t = i \<and> eliminadoEn t = None) (turnos st) = Some x"
      "prisma_turno_update st i
                \<lparr>u_peliculaId = None, u_sala = None, u_inicio = None, u_fin = None,
                 u_estado = Some CANCELADO, u_eliminadoEn = Some ahora\<rparr> = Inr (st', r)"
      by blast
    then have "t \<in> set (turnos st')" by (rule eliminado_conservado_update [OF d _ _ t e])
    then show ?thesis using Eliminar Inr by simp
  qed
next
  case (CrearMultiples reloj ts)
  have "t \<in> set (turnos (l_db (snd (procesar reloj \<lparr>l_db = st, turnosCreados = [], errores = []\<rparr> ts 0))))"
    by (rule procesar_conserva) (simp add: t)
  then show ?thesis using CrearMultiples t createMultipleTurnos_db [of reloj st ts]
    by auto
next
  case (BulkCreate ident ts)
  show ?thesis
  proof (cases "bulkCreateTurnos st ident ts")
    case (Inl a) then show ?thesis using BulkCreate t by simp
  next
    case (Inr pr)
    obtain st' n where pr: "pr = (st', n)" by (cases pr)
    have "bulkCreateTurnos st ident ts = Inr (st', n)" using Inr pr by simp
    from insertar_filas_conserva [OF t bulkCreateTurnos_Inr [OF this]]
    show ?thesis using BulkCreate Inr pr by simp
  qed
next
  case (Peliculas ps)
  then show ?thesis using t by (simp add: cambiar_peliculas_def)
qed

lemma ejecutar_conserva:
  "consistente st \<Longrightarrow> t \<in> set (turnos st) \<Longrightarrow> eliminadoEn t \<noteq> None \<Longrightarrow>
     t \<in> set (turnos (ejecutar ops st))"
  unfolding ejecutar_def
  by (induction ops arbitrary: st) (auto intro: aplicar_conserva aplicar_consistente)

lemma prisma_turno_update_ok:
  assumes f: "find (\<lambda>t. tid t = i) (turnos st) = Some x"
    and rg: "inicio (set_datos d x) \<le> fin (set_datos d x)"
    and fr: "\<forall>c\<in>set (turnos st). tid c \<noteq> i \<and> sala c = sala (set_datos d x) \<longrightarrow>
               \<not> rangos_solapan (inicio c) (fin c) (inicio (set_datos d x)) (fin (set_datos d x))"
    and fk: "\<exists>p\<in>set (peliculas st). pid p = peliculaId (set_datos d x)"
  shows "prisma_turno_update st i d =
           Inr (st\<lparr>turnos := map (\<lambda>t. if tid t = i then set_datos d x else t) (turnos st)\<rparr>,
                set_datos d x)"
proof -
  have "\<not> viola_exclusion (set_datos d x) (filter (\<lambda>t. tid t \<noteq> i) (turnos st))"
    using fr by (auto simp: viola_exclusion_def list_ex_iff)
  then have "comprobar_fila st (set_datos d x) (filter (\<lambda>t. tid t \<noteq> i) (turnos st)) = None"
    using rg fk by (auto simp: comprobar_fila_def list_ex_iff)
  then show ?thesis using f by (simp add: prisma_turno_update_def Let_def)
qed

lemma deleteTurno_ok:
  assumes c: "consistente st"
    and f: "find (\<lambda>t. tid t = i \<and> eliminadoEn t = None) (turnos st) = Some x"
  shows "deleteTurno ahora st i =
           Inr (st\<lparr>turnos := map (\<lambda>t. if tid t = i
                                        then x\<lparr>estado := CANCELADO, eliminadoEn := Some ahora\<rparr>
                                        else t) (turnos st)\<rparr>)"
proof -
  define d where "d = \<lparr>u_peliculaId = None, u_sala = None, u_inicio = None, u_fin = None,
                 u_estado = Some CANCELADO, u_eliminadoEn = Some ahora\<rparr>"
  have sd: "set_datos d x = x\<lparr>estado := CANCELADO, eliminadoEn := Some ahora\<rparr>"
    by (simp add: set_datos_def d_def)
  have di: "distinct (map tid (turnos st))" using c by (simp add: consistente_def)
  from find_vigente [OF f di] have ft: "find (\<lambda>t. tid t = i) (turnos st) = Some x"
    and xin: "x \<in> set (turnos st)" and xi: "tid x = i" by auto
  have x1: "inicio x \<le> fin x" and x2: "\<exists>p\<in>set (peliculas st). pid p = peliculaId x"
    using c xin by (auto simp: consistente_def)
  have x3: "\<forall>c\<in>set (turnos st). tid c \<noteq> i \<and> sala c = sala x \<longrightarrow>
               \<not> rangos_solapan (inicio c) (fin c) (inicio x) (fin x)"
    using c xin xi unfolding consistente_def by blast
  have "prisma_turno_update st i d =
           Inr (st\<lparr>turnos := map (\<lambda>t. if tid t = i then set_datos d x else t) (turnos st)\<rparr>,
                set_datos d x)"
    by (rule prisma_turno_update_ok [OF ft]) (use x1 x2 x3 in \<open>simp_all add: sd\<close>)
  then show ?thesis using f by (simp add: deleteTurno_def d_def [symmetric] sd)
qed

text \<open>
  C10. In a state that any run of requests has reached (batches of both kinds and
  changes of the catalogue among them), \<^verbatim>\<open>deleteTurno\<close> of a turno that is there and not
  deleted succeeds and changes that row alone, setting \<^verbatim>\<open>eliminadoEn\<close> to the clock's
  reading and \<^verbatim>\<open>estado\<close> to \<^verbatim>\<open>CANCELADO\<close> in the one update; and whatever requests follow
  a \<^verbatim>\<open>deleteTurno\<close> that succeeded, the row with that id stays exactly so: deleted at
  that reading and \<^verbatim>\<open>CANCELADO\<close>.
\<close>

theorem deleteTurno_sets_both_markers:
  "(find (\<lambda>t. tid t = i \<and> eliminadoEn t = None) (turnos (ejecutar antes (vacio ps))) = Some x
      \<longrightarrow> deleteTurno ahora (ejecutar antes (vacio ps)) i =
            Inr ((ejecutar antes (vacio ps))
                  \<lparr>turnos := map (\<lambda>t. if tid t = i
                                       then x\<lparr>estado := CANCELADO, eliminadoEn := Some ahora\<rparr>
                                       else t) (turnos (ejecutar antes (vacio ps)))\<rparr>))
   \<and> (deleteTurno ahora (ejecutar antes (vacio ps)) i = Inr st'
      \<longrightarrow> (\<exists>t\<in>set (turnos (ejecutar despues st')).
             tid t = i \<and> eliminadoEn t = Some ahora \<and> estado t = CANCELADO
           \<and> (\<forall>u\<in>set (turnos (ejecutar despues st')). tid u = i \<longrightarrow> u = t)))"
proof (intro conjI impI)
  assume "find (\<lambda>t. tid t = i \<and> eliminadoEn t = None) (turnos (ejecutar antes (vacio ps))) = Some x"
  then show "deleteTurno ahora (ejecutar antes (vacio ps)) i =
            Inr ((ejecutar antes (vacio ps))
                  \<lparr>turnos := map (\<lambda>t. if tid t = i
                                       then x\<lparr>estado := CANCELADO, eliminadoEn := Some ahora\<rparr>
                                       else t) (turnos (ejecutar antes (vacio ps)))\<rparr>)"
    by (rule deleteTurno_ok [OF ejecutar_consistente])
next
  define st where "st = ejecutar antes (vacio ps)"
  assume d: "deleteTurno ahora (ejecutar antes (vacio ps)) i = Inr st'"
  have c: "consistente st" unfolding st_def by (rule ejecutar_consistente)
  from deleteTurno_Inr [OF d] obtain x where
    f: "find (\<lambda>t. tid t = i \<and> eliminadoEn t = None) (turnos st) = Some x"
    unfolding st_def by blast
  have di: "distinct (map tid (turnos st))" using c by (simp add: consistente_def)
  from find_vigente [OF f di] have xin: "x \<in> set (turnos st)" and xi: "tid x = i" by auto
  define t where "t = x\<lparr>estado := CANCELADO, eliminadoEn := Some ahora\<rparr>"
  have st': "st' = st\<lparr>turnos := map (\<lambda>u. if tid u = i then t else u) (turnos st)\<rparr>"
  proof -
    have "deleteTurno ahora st i = Inr st'" using d by (simp only: st_def)
    moreover have "deleteTurno ahora st i = Inr (st\<lparr>turnos := map (\<lambda>u. if tid u = i then t else u) (turnos st)\<rparr>)"
      unfolding t_def by (rule deleteTurno_ok [OF c f])
    ultimately show ?thesis by simp
  qed
  have c': "consistente st'" by (rule deleteTurno_consistente [OF c]) (use d in \<open>simp only: st_def\<close>)
  have tin: "t \<in> set (turnos st')"
  proof -
    have "(if tid x = i then t else x) \<in> (\<lambda>u. if tid u = i then t else u) ` set (turnos st)"
      using xin by (rule imageI)
    then show ?thesis using xi by (simp add: st')
  qed
  have te: "eliminadoEn t \<noteq> None" by (simp add: t_def)
  have fin: "t \<in> set (turnos (ejecutar despues st'))" by (rule ejecutar_conserva [OF c' tin te])
  have dd: "distinct (map tid (turnos (ejecutar despues st')))"
    using ejecutar_consistente_desde [OF c', of despues] by (simp add: consistente_def)
  have ti: "tid t = i" using xi by (simp add: t_def)
  have t1: "eliminadoEn t = Some ahora" and t2: "estado t = CANCELADO" by (simp_all add: t_def)
  have uniq: "\<forall>u\<in>set (turnos (ejecutar despues st')). tid u = i \<longrightarrow> u = t"
  proof (intro ballI impI)
    fix u assume "u \<in> set (turnos (ejecutar despues st'))" and "tid u = i"
    then show "u = t" using distinct_tid_eq [OF dd _ fin, of u] ti by simp
  qed
  show "\<exists>t\<in>set (turnos (ejecutar despues st')).
             tid t = i \<and> eliminadoEn t = Some ahora \<and> estado t = CANCELADO
           \<and> (\<forall>u\<in>set (turnos (ejecutar despues st')). tid u = i \<longrightarrow> u = t)"
    using fin ti t1 t2 uniq by blast
qed

lemma ej_eliminar1:
  "deleteTurno 77 (ejecutar [Crear 0 ej_item1] (vacio ej_peliculas)) 0 = Inr ej_st1_del"
  by (simp add: ejecutar_def ej_crear1)
     (simp add: ej_defs deleteTurno_def prisma_turno_update_def set_datos_def
        comprobar_fila_def viola_exclusion_def Let_def)

theorem deleteTurno_sets_both_markers_witness:
  "find (\<lambda>t. tid t = 0 \<and> eliminadoEn t = None)
       (turnos (ejecutar [Crear 0 ej_item1] (vacio ej_peliculas))) = Some ej_turno1
   \<and> deleteTurno 77 (ejecutar [Crear 0 ej_item1] (vacio ej_peliculas)) 0 = Inr ej_st1_del
   \<and> ej_turno1_del \<in> set (turnos ej_st1_del)
   \<and> (\<exists>t\<in>set (turnos (ejecutar [Crear 100 ej_item1, Eliminar 100 0,
                                  BulkCreate ''p1'' [ej_fila_vacia]] ej_st1_del)).
        tid t = 0 \<and> eliminadoEn t = Some 77 \<and> estado t = CANCELADO)"
proof -
  have f: "find (\<lambda>t. tid t = 0 \<and> eliminadoEn t = None)
       (turnos (ejecutar [Crear 0 ej_item1] (vacio ej_peliculas))) = Some ej_turno1"
    by (simp add: ejecutar_def ej_crear1) (simp add: ej_st1_def ej_turno1_def)
  have d: "deleteTurno 77 (ejecutar [Crear 0 ej_item1] (vacio ej_peliculas)) 0 = Inr ej_st1_del"
    by (rule ej_eliminar1)
  have m: "ej_turno1_del \<in> set (turnos ej_st1_del)" by (simp add: ej_st1_del_def)
  from deleteTurno_sets_both_markers
         [where i = 0 and antes = "[Crear 0 ej_item1]" and ps = ej_peliculas
            and x = ej_turno1 and ahora = 77 and st' = ej_st1_del
            and despues = "[Crear 100 ej_item1, Eliminar 100 0,
                            BulkCreate ''p1'' [ej_fila_vacia]]"]
       f d m
  show ?thesis by blast
qed

section \<open>Creating a turno\<close>

lemma createTurno_ignores_fin:
  "createTurno ahora st (body\<lparr>d_fin := x\<rparr>) = createTurno ahora st body"
  by (simp add: createTurno_def createTurno_try_def Let_def
        cong: option.case_cong validacion.case_cong sum.case_cong)

lemma validateTurnoDuration_Valido_minutos:
  "validateTurnoDuration ahora (Some i) (Some f) d = Valido \<Longrightarrow>
     d + 15 \<le> (f - i) div 60000 \<and> (f - i) div 60000 \<le> 240"
  by (auto simp: validateTurnoDuration_def Let_def split: if_splits)

lemma ej_item1_lote:
  "processTurnoItem 0 \<lparr>l_db = vacio ej_peliculas, turnosCreados = [], errores = []\<rparr>
      (Some ej_item1) 0
     = Inr \<lparr>l_db = \<lparr>peliculas = ej_peliculas, turnos = [ej_turno1_lote], siguienteId = 1\<rparr>,
            turnosCreados = [ej_turno1_lote], errores = []\<rparr>"
  by (simp add: ej_defs processTurnoItem_def validateTurnoDuration_def
        validateTurnoOverlap_def prisma_turno_create_def comprobar_fila_def
        viola_exclusion_def Let_def)

text \<open>
  C4 (as amended). A \<^verbatim>\<open>createTurno\<close> that succeeds stores
  \<open>fin = inicio + (duracionMin + 15) * 60 * 1000\<close> ms, with the duration of the pelicula
  it found, and appends that row to the table; any \<^verbatim>\<open>fin\<close> the caller sends changes
  nothing. An item of \<^verbatim>\<open>createMultipleTurnos\<close> that succeeds stores the \<^verbatim>\<open>fin\<close> the item
  carries, which the duration validation has accepted: its whole minutes after \<^verbatim>\<open>inicio\<close>
  are at least the duration plus 15 and at most 240.
\<close>

theorem create_persisted_fin:
  "(createTurno ahora st body = Inr (st', t)
     \<longrightarrow> (\<exists>p i. find (\<lambda>p. pid p = d_peliculaId body \<and> p_eliminadoEn p = None) (peliculas st)
                  = Some p
              \<and> d_inicio body = Some i
              \<and> inicio t = i
              \<and> fin t = i + (duracionMin p + 15) * 60 * 1000
              \<and> turnos st' = turnos st @ [t]
              \<and> createTurno ahora st (body\<lparr>d_fin := x\<rparr>) = Inr (st', t)))
   \<and> (processTurnoItem ahora l (Some d) k = Inr l'
        \<and> turnosCreados l' = turnosCreados l @ [t']
     \<longrightarrow> (\<exists>p i f. find (\<lambda>p. pid p = d_peliculaId d \<and> p_eliminadoEn p = None)
                      (peliculas (l_db l)) = Some p
              \<and> d_inicio d = Some i \<and> d_fin d = Some f
              \<and> inicio t' = i \<and> fin t' = f
              \<and> duracionMin p + 15 \<le> (f - i) div 60000 \<and> (f - i) div 60000 \<le> 240
              \<and> turnos (l_db l') = turnos (l_db l) @ [t']))"
proof (intro conjI impI)
  assume a: "createTurno ahora st body = Inr (st', t)"
  show "\<exists>p i. find (\<lambda>p. pid p = d_peliculaId body \<and> p_eliminadoEn p = None) (peliculas st)
                  = Some p
              \<and> d_inicio body = Some i
              \<and> inicio t = i
              \<and> fin t = i + (duracionMin p + 15) * 60 * 1000
              \<and> turnos st' = turnos st @ [t]
              \<and> createTurno ahora st (body\<lparr>d_fin := x\<rparr>) = Inr (st', t)"
  proof (rule createTurno_Inr [OF a])
    fix p i
    assume p: "find (\<lambda>p. pid p = d_peliculaId body \<and> p_eliminadoEn p = None) (peliculas st) = Some p"
      and i: "d_inicio body = Some i"
      and c: "prisma_turno_create st None (d_peliculaId body) (d_sala body) i
           (i + (duracionMin p + 15) * 60 * 1000)
           (case d_estado body of None \<Rightarrow> ACTIVO | Some e \<Rightarrow> e) None = Inr (st', t)"
    from prisma_turno_create_Inr [OF c]
    have t: "inicio t = i" "fin t = i + (duracionMin p + 15) * 60 * 1000" by simp_all
    from prisma_turno_create_turnos [OF c] have tu: "turnos st' = turnos st @ [t]" by simp
    have ig: "createTurno ahora st (body\<lparr>d_fin := x\<rparr>) = Inr (st', t)"
      using a by (simp add: createTurno_ignores_fin)
    show ?thesis using p i t tu ig by blast
  qed
next
  assume a: "processTurnoItem ahora l (Some d) k = Inr l'
        \<and> turnosCreados l' = turnosCreados l @ [t']"
  from processTurnoItem_cases [of ahora l d k]
  consider m where "processTurnoItem ahora l (Some d) k =
                      Inr (l\<lparr>errores := errores l @ [(k, m, d)]\<rparr>)"
    | st1 t1 p i f where
        "find (\<lambda>p. pid p = d_peliculaId d \<and> p_eliminadoEn p = None) (peliculas (l_db l))
          = Some p"
        "validateTurnoDuration ahora (Some i) (Some f) (duracionMin p) = Valido"
        "d_inicio d = Some i" "d_fin d = Some f"
        "prisma_turno_create (l_db l) (d_id d) (d_peliculaId d) (d_sala d) i f
            (case d_estado d of None \<Rightarrow> ACTIVO | Some e \<Rightarrow> e) (d_eliminadoEn d)
            = Inr (st1, t1)"
        "processTurnoItem ahora l (Some d) k =
            Inr (l\<lparr>l_db := st1, turnosCreados := turnosCreados l @ [t1]\<rparr>)"
    by blast
  then show "\<exists>p i f. find (\<lambda>p. pid p = d_peliculaId d \<and> p_eliminadoEn p = None)
                      (peliculas (l_db l)) = Some p
              \<and> d_inicio d = Some i \<and> d_fin d = Some f
              \<and> inicio t' = i \<and> fin t' = f
              \<and> duracionMin p + 15 \<le> (f - i) div 60000 \<and> (f - i) div 60000 \<le> 240
              \<and> turnos (l_db l') = turnos (l_db l) @ [t']"
  proof cases
    case 1
    then have "turnosCreados l' = turnosCreados l" using a by auto
    then show ?thesis using a by simp
  next
    case 2
    have l': "l' = l\<lparr>l_db := st1, turnosCreados := turnosCreados l @ [t1]\<rparr>"
      using a 2(6) by simp
    have tt: "t1 = t'" using a by (simp add: l')
    from prisma_turno_create_Inr [OF 2(5)]
    have f1: "inicio t1 = i" "fin t1 = f" by simp_all
    from prisma_turno_create_turnos [OF 2(5)]
    have tu: "turnos (l_db l') = turnos (l_db l) @ [t']" by (simp add: l' tt)
    note b = validateTurnoDuration_Valido_minutos [OF 2(2)]
    show ?thesis using 2(1,3,4) f1 tt b tu by blast
  qed
qed

theorem create_persisted_fin_witness:
  "createTurno 0 (vacio ej_peliculas) ej_item1 = Inr (ej_st1, ej_turno1)
   \<and> d_inicio ej_item1 = Some 36000000 \<and> d_fin ej_item1 = Some 43200000
   \<and> (\<exists>p. find (\<lambda>p. pid p = d_peliculaId ej_item1 \<and> p_eliminadoEn p = None)
             (peliculas (vacio ej_peliculas)) = Some p
          \<and> duracionMin p = 90
          \<and> fin ej_turno1 = 36000000 + (duracionMin p + 15) * 60 * 1000)
   \<and> fin ej_turno1 = 42300000
   \<and> turnos ej_st1 = turnos (vacio ej_peliculas) @ [ej_turno1]
   \<and> processTurnoItem 0 \<lparr>l_db = vacio ej_peliculas, turnosCreados = [], errores = []\<rparr>
        (Some ej_item1) 0
      = Inr \<lparr>l_db = \<lparr>peliculas = ej_peliculas, turnos = [ej_turno1_lote], siguienteId = 1\<rparr>,
             turnosCreados = [ej_turno1_lote], errores = []\<rparr>
   \<and> (\<exists>f. d_fin ej_item1 = Some f \<and> fin ej_turno1_lote = f
          \<and> 90 + 15 \<le> (f - 36000000) div 60000 \<and> (f - 36000000) div 60000 \<le> 240)"
proof -
  note th = create_persisted_fin
    [where ahora = 0 and st = "vacio ej_peliculas" and body = ej_item1 and st' = ej_st1
       and t = ej_turno1
       and l = "\<lparr>l_db = vacio ej_peliculas, turnosCreados = [], errores = []\<rparr>"
       and d = ej_item1 and k = 0
       and l' = "\<lparr>l_db = \<lparr>peliculas = ej_peliculas, turnos = [ej_turno1_lote],
                           siguienteId = 1\<rparr>,
                  turnosCreados = [ej_turno1_lote], errores = []\<rparr>"
       and t' = ej_turno1_lote]
  have c: "createTurno 0 (vacio ej_peliculas) ej_item1 = Inr (ej_st1, ej_turno1)"
    by (rule ej_crear1)
  have i: "d_inicio ej_item1 = Some 36000000" "d_fin ej_item1 = Some 43200000"
    by (simp_all add: ej_item1_def)
  from th [THEN conjunct1, THEN mp, OF c] obtain p j where
    p: "find (\<lambda>p. pid p = d_peliculaId ej_item1 \<and> p_eliminadoEn p = None)
             (peliculas (vacio ej_peliculas)) = Some p"
    and j: "d_inicio ej_item1 = Some j" "fin ej_turno1 = j + (duracionMin p + 15) * 60 * 1000"
    and tu: "turnos ej_st1 = turnos (vacio ej_peliculas) @ [ej_turno1]"
    by blast
  have j': "j = 36000000" using i j by simp
  have d: "duracionMin p = 90" using p by (simp add: ej_defs)  (auto)
  have f: "fin ej_turno1 = 42300000" by (simp add: ej_turno1_def)
  have h2: "processTurnoItem 0 \<lparr>l_db = vacio ej_peliculas, turnosCreados = [], errores = []\<rparr>
        (Some ej_item1) 0
      = Inr \<lparr>l_db = \<lparr>peliculas = ej_peliculas, turnos = [ej_turno1_lote], siguienteId = 1\<rparr>,
             turnosCreados = [ej_turno1_lote], errores = []\<rparr>
     \<and> turnosCreados \<lparr>l_db = \<lparr>peliculas = ej_peliculas, turnos = [ej_turno1_lote],
                               siguienteId = 1\<rparr>,
                      turnosCreados = [ej_turno1_lote], errores = []\<rparr>
       = turnosCreados \<lparr>l_db = vacio ej_peliculas, turnosCreados = [], errores = []\<rparr>
         @ [ej_turno1_lote]"
    using ej_item1_lote by simp
  from th [THEN conjunct2, THEN mp, OF h2] obtain q a b where
    q: "find (\<lambda>p. pid p = d_peliculaId ej_item1 \<and> p_eliminadoEn p = None)
             (peliculas (l_db \<lparr>l_db = vacio ej_peliculas, turnosCreados = [], errores = []\<rparr>))
          = Some q"
    and ab: "d_inicio ej_item1 = Some a" "d_fin ej_item1 = Some b" "fin ej_turno1_lote = b"
      "duracionMin q + 15 \<le> (b - a) div 60000" "(b - a) div 60000 \<le> 240"
    by blast
  have a': "a = 36000000" using i ab by simp
  have dq: "duracionMin q = 90" using q by (simp add: ej_defs) (auto)
  have e: "\<exists>f. d_fin ej_item1 = Some f \<and> fin ej_turno1_lote = f
          \<and> 90 + 15 \<le> (f - 36000000) div 60000 \<and> (f - 36000000) div 60000 \<le> 240"
    using ab a' dq by auto
  show ?thesis using c i p j j' d f tu h2 e by blast
qed

text \<open>
  As stated, C4 fails: the claim's own request, sala A1 at 10:00 with the 90-minute
  pelicula and a caller's \<^verbatim>\<open>fin\<close> of 12:00, is a successful create through
  \<^verbatim>\<open>createMultipleTurnos\<close> that stores 12:00, not 11:45.
\<close>

theorem createMultipleTurnos_keeps_caller_fin:
  "createMultipleTurnos (\<lambda>k. 0) (vacio ej_peliculas) [Some ej_item1]
     = (Inr \<lparr>l_db = \<lparr>peliculas = ej_peliculas, turnos = [ej_turno1_lote], siguienteId = 1\<rparr>,
             turnosCreados = [ej_turno1_lote], errores = []\<rparr>,
        \<lparr>peliculas = ej_peliculas, turnos = [ej_turno1_lote], siguienteId = 1\<rparr>)
   \<and> d_inicio ej_item1 = Some 36000000 \<and> d_fin ej_item1 = Some 43200000
   \<and> inicio ej_turno1_lote = 36000000 \<and> fin ej_turno1_lote = 43200000
   \<and> fin ej_turno1_lote \<noteq> 36000000 + (90 + 15) * 60 * 1000"
proof -
  have "createMultipleTurnos (\<lambda>k. 0) (vacio ej_peliculas) [Some ej_item1]
     = (Inr \<lparr>l_db = \<lparr>peliculas = ej_peliculas, turnos = [ej_turno1_lote], siguienteId = 1\<rparr>,
             turnosCreados = [ej_turno1_lote], errores = []\<rparr>,
        \<lparr>peliculas = ej_peliculas, turnos = [ej_turno1_lote], siguienteId = 1\<rparr>)"
    by (simp add: createMultipleTurnos_def ej_item1_lote)
  then show ?thesis by (simp add: ej_item1_def ej_turno1_lote_def)
qed

section \<open>Conflicts\<close>

lemma createTurno_try_stages:
  assumes p: "find (\<lambda>p. pid p = d_peliculaId body \<and> p_eliminadoEn p = None) (peliculas st) = Some p"
    and i: "d_inicio body = Some i"
    and nd: "new_Date (i + (duracionMin p + 15) * 60 * 1000) = Some f"
    and v: "validateTurnoDuration ahora (Some i) (Some f) (duracionMin p) = Valido"
  shows "createTurno_try ahora st body =
    (case validateTurnoOverlap st (d_sala body) (Some i) (Some f) None of
       Invalido m \<Rightarrow> Inl (createError 409 m ''SCHEDULE_CONFLICT'')
     | Valido \<Rightarrow> prisma_turno_create st None (d_peliculaId body) (d_sala body) i f
                   (case d_estado body of None \<Rightarrow> ACTIVO | Some e \<Rightarrow> e) None)"
  using assms by (simp add: createTurno_try_def Let_def split: validacion.splits)

lemma ej_solapa_precheck:
  "validateTurnoOverlap ej_st1 ''A1'' (Some 39600000) (Some 44100000) None
     = Invalido (ConflictoHorarioSala ''A1'' ''Film'' 36000000 42300000)"
  by (simp add: ej_defs validateTurnoOverlap_def where_solapados_def solapa_def)

lemma ej_crear_solapa:
  "createTurno 0 ej_st1 ej_item_solapa
     = Inl (createError 409 (ConflictoHorarioSala ''A1'' ''Film'' 36000000 42300000)
              ''SCHEDULE_CONFLICT'')"
  using ej_no_conflicto_db [of 36000000 42300000]
  by (simp add: ej_defs createTurno_def createTurno_try_def validateTurnoDuration_def
        validateTurnoOverlap_def where_solapados_def solapa_def new_Date_def Let_def)

lemma ej_del_precheck:
  "validateTurnoOverlap ej_st1_del ''A1'' (Some 36000000) (Some 42300000) None = Valido"
  by (simp add: ej_defs validateTurnoOverlap_def where_solapados_def solapa_def)

lemma ej_del_insert:
  "prisma_turno_create ej_st1_del None ''p1'' ''A1'' 36000000 42300000 ACTIVO None
     = Inl error_exclusion"
  by (simp add: ej_defs prisma_turno_create_def comprobar_fila_def viola_exclusion_def
        rangos_solapan_def Let_def)

lemma ej_crear_del:
  "createTurno 100 ej_st1_del ej_item1
     = Inl (createError 409 ConflictoHorarioDB ''SCHEDULE_CONFLICT'')"
  by (simp add: ej_defs createTurno_def createTurno_try_def validateTurnoDuration_def
        validateTurnoOverlap_def where_solapados_def solapa_def new_Date_def
        prisma_turno_create_def comprobar_fila_def viola_exclusion_def rangos_solapan_def
        es_conflicto_db_exclusion Let_def)

text \<open>
  C7 (as amended). When the pelicula is found and the duration is valid, a
  \<^verbatim>\<open>createTurno\<close> that the overlap pre-check rejects ends in the error 409
  \<^verbatim>\<open>SCHEDULE_CONFLICT\<close> with the pre-check's message (replaced by the fixed text of the
  \<^verbatim>\<open>catch\<close> if the sala or the title happens to contain the constraint's name), and one
  that the storage layer rejects by its exclusion constraint ends in the error 409
  \<^verbatim>\<open>SCHEDULE_CONFLICT\<close> with that fixed text. The error handler sends status, code and
  message as they are, so the two answers agree in status and code and differ in the
  message. In \<^verbatim>\<open>createMultipleTurnos\<close> either rejection is one entry of \<^verbatim>\<open>errores\<close>,
  with the index, the item and a message and no status or code: the pre-check's message,
  or for the storage layer the batch's own fixed text.
\<close>

theorem schedule_conflict_kind:
  "(find (\<lambda>p. pid p = d_peliculaId body \<and> p_eliminadoEn p = None) (peliculas st) = Some p
      \<and> d_inicio body = Some i
      \<and> new_Date (i + (duracionMin p + 15) * 60 * 1000) = Some f
      \<and> validateTurnoDuration ahora (Some i) (Some f) (duracionMin p) = Valido
      \<and> validateTurnoOverlap st (d_sala body) (Some i) (Some f) None = Invalido m
    \<longrightarrow> createTurno ahora st body =
          Inl (createError 409 (if incluye_restriccion m then ConflictoHorarioDB else m)
                 ''SCHEDULE_CONFLICT''))
   \<and> (find (\<lambda>p. pid p = d_peliculaId body \<and> p_eliminadoEn p = None) (peliculas st) = Some p
      \<and> d_inicio body = Some i
      \<and> new_Date (i + (duracionMin p + 15) * 60 * 1000) = Some f
      \<and> validateTurnoDuration ahora (Some i) (Some f) (duracionMin p) = Valido
      \<and> validateTurnoOverlap st (d_sala body) (Some i) (Some f) None = Valido
      \<and> prisma_turno_create st None (d_peliculaId body) (d_sala body) i f
           (case d_estado body of None \<Rightarrow> ACTIVO | Some e \<Rightarrow> e) None = Inl error_exclusion
    \<longrightarrow> createTurno ahora st body =
          Inl (createError 409 ConflictoHorarioDB ''SCHEDULE_CONFLICT''))
   \<and> (m' \<noteq> Texto []
    \<longrightarrow> errorHandler (createError 409 m' ''SCHEDULE_CONFLICT'') =
          \<lparr>r_status = 409, r_code = ''SCHEDULE_CONFLICT'', r_message = m'\<rparr>)
   \<and> (find (\<lambda>p. pid p = d_peliculaId d \<and> p_eliminadoEn p = None) (peliculas (l_db l))
        = Some q
      \<and> validateTurnoDuration ahora (d_inicio d) (d_fin d) (duracionMin q) = Valido
      \<and> validateTurnoOverlap (l_db l) (d_sala d) (d_inicio d) (d_fin d) None = Invalido m
    \<longrightarrow> processTurnoItem ahora l (Some d) k =
          Inr (l\<lparr>errores := errores l @ [(k, m, d)]\<rparr>))
   \<and> (find (\<lambda>p. pid p = d_peliculaId d \<and> p_eliminadoEn p = None) (peliculas (l_db l))
        = Some q
      \<and> validateTurnoDuration ahora (d_inicio d) (d_fin d) (duracionMin q) = Valido
      \<and> validateTurnoOverlap (l_db l) (d_sala d) (d_inicio d) (d_fin d) None = Valido
      \<and> d_inicio d = Some a \<and> d_fin d = Some b
      \<and> prisma_turno_create (l_db l) (d_id d) (d_peliculaId d) (d_sala d) a b
           (case d_estado d of None \<Rightarrow> ACTIVO | Some e \<Rightarrow> e) (d_eliminadoEn d)
          = Inl error_exclusion
    \<longrightarrow> processTurnoItem ahora l (Some d) k =
          Inr (l\<lparr>errores := errores l @ [(k, ConflictoHorarioDBItem, d)]\<rparr>))"
proof (intro conjI impI)
  assume a: "find (\<lambda>p. pid p = d_peliculaId body \<and> p_eliminadoEn p = None) (peliculas st) = Some p
      \<and> d_inicio body = Some i
      \<and> new_Date (i + (duracionMin p + 15) * 60 * 1000) = Some f
      \<and> validateTurnoDuration ahora (Some i) (Some f) (duracionMin p) = Valido
      \<and> validateTurnoOverlap st (d_sala body) (Some i) (Some f) None = Invalido m"
  then have t: "createTurno_try ahora st body = Inl (createError 409 m ''SCHEDULE_CONFLICT'')"
    using createTurno_try_stages [of body st p i f ahora] by simp
  have "es_conflicto_db (createError 409 m ''SCHEDULE_CONFLICT'') = incluye_restriccion m"
    by (simp add: es_conflicto_db_def createError_def)
  then show "createTurno ahora st body =
          Inl (createError 409 (if incluye_restriccion m then ConflictoHorarioDB else m)
                 ''SCHEDULE_CONFLICT'')"
    using t by (simp add: createTurno_def)
next
  assume a: "find (\<lambda>p. pid p = d_peliculaId body \<and> p_eliminadoEn p = None) (peliculas st) = Some p
      \<and> d_inicio body = Some i
      \<and> new_Date (i + (duracionMin p + 15) * 60 * 1000) = Some f
      \<and> validateTurnoDuration ahora (Some i) (Some f) (duracionMin p) = Valido
      \<and> validateTurnoOverlap st (d_sala body) (Some i) (Some f) None = Valido
      \<and> prisma_turno_create st None (d_peliculaId body) (d_sala body) i f
           (case d_estado body of None \<Rightarrow> ACTIVO | Some e \<Rightarrow> e) None = Inl error_exclusion"
  then have t: "createTurno_try ahora st body = Inl error_exclusion"
    using createTurno_try_stages [of body st p i f ahora] by simp
  show "createTurno ahora st body =
          Inl (createError 409 ConflictoHorarioDB ''SCHEDULE_CONFLICT'')"
    using t es_conflicto_db_exclusion by (simp add: createTurno_def)
next
  assume "m' \<noteq> Texto []"
  then show "errorHandler (createError 409 m' ''SCHEDULE_CONFLICT'') =
          \<lparr>r_status = 409, r_code = ''SCHEDULE_CONFLICT'', r_message = m'\<rparr>"
    by (cases m') (simp_all add: errorHandler_def createError_def split: list.splits)
next
  assume "find (\<lambda>p. pid p = d_peliculaId d \<and> p_eliminadoEn p = None) (peliculas (l_db l))
        = Some q
      \<and> validateTurnoDuration ahora (d_inicio d) (d_fin d) (duracionMin q) = Valido
      \<and> validateTurnoOverlap (l_db l) (d_sala d) (d_inicio d) (d_fin d) None = Invalido m"
  then show "processTurnoItem ahora l (Some d) k =
          Inr (l\<lparr>errores := errores l @ [(k, m, d)]\<rparr>)"
    using processTurnoItem_solapado [of d l q ahora m k] by blast
next
  assume a: "find (\<lambda>p. pid p = d_peliculaId d \<and> p_eliminadoEn p = None) (peliculas (l_db l))
        = Some q
      \<and> validateTurnoDuration ahora (d_inicio d) (d_fin d) (duracionMin q) = Valido
      \<and> validateTurnoOverlap (l_db l) (d_sala d) (d_inicio d) (d_fin d) None = Valido
      \<and> d_inicio d = Some a \<and> d_fin d = Some b
      \<and> prisma_turno_create (l_db l) (d_id d) (d_peliculaId d) (d_sala d) a b
           (case d_estado d of None \<Rightarrow> ACTIVO | Some e \<Rightarrow> e) (d_eliminadoEn d)
          = Inl error_exclusion"
  then have h: "find (\<lambda>p. pid p = d_peliculaId d \<and> p_eliminadoEn p = None) (peliculas (l_db l))
        = Some q"
      "validateTurnoDuration ahora (d_inicio d) (d_fin d) (duracionMin q) = Valido"
      "validateTurnoOverlap (l_db l) (d_sala d) (d_inicio d) (d_fin d) None = Valido"
      "d_inicio d = Some a" "d_fin d = Some b"
    and c: "prisma_turno_create (l_db l) (d_id d) (d_peliculaId d) (d_sala d) a b
           (case d_estado d of None \<Rightarrow> ACTIVO | Some e \<Rightarrow> e) (d_eliminadoEn d)
          = Inl error_exclusion"
    by blast+
  show "processTurnoItem ahora l (Some d) k =
          Inr (l\<lparr>errores := errores l @ [(k, ConflictoHorarioDBItem, d)]\<rparr>)"
    unfolding processTurnoItem_insert [OF h] c using es_conflicto_db_exclusion by simp
qed

lemma ej_no_incluye: "\<not> incluye_restriccion (ConflictoHorarioSala ''A1'' ''Film'' i f)"
proof -
  have "length ''A1'' < length nombre_restriccion" "length ''Film'' < length nombre_restriccion"
    by (simp_all add: nombre_restriccion_def)
  then show ?thesis by (simp add: corto_no_incluye)
qed

lemma ej_lote_solapa:
  "processTurnoItem 0 \<lparr>l_db = ej_st1, turnosCreados = [ej_turno1], errores = []\<rparr>
      (Some ej_item_solapa) (Suc 0)
     = Inr \<lparr>l_db = ej_st1, turnosCreados = [ej_turno1],
            errores = [(Suc 0, ConflictoHorarioSala ''A1'' ''Film'' 36000000 42300000,
                        ej_item_solapa)]\<rparr>"
  by (simp add: ej_defs processTurnoItem_def validateTurnoDuration_def
        validateTurnoOverlap_def where_solapados_def solapa_def Let_def)

lemma ej_lote_del:
  "processTurnoItem 100 \<lparr>l_db = ej_st1_del, turnosCreados = [], errores = []\<rparr>
      (Some ej_lote1) 0
     = Inr \<lparr>l_db = ej_st1_del, turnosCreados = [],
            errores = [(0, ConflictoHorarioDBItem, ej_lote1)]\<rparr>"
  by (simp add: ej_defs processTurnoItem_def validateTurnoDuration_def
        validateTurnoOverlap_def where_solapados_def solapa_def prisma_turno_create_def
        comprobar_fila_def viola_exclusion_def rangos_solapan_def
        es_conflicto_db_exclusion Let_def)

theorem schedule_conflict_kind_witness:
  "validateTurnoOverlap ej_st1 (d_sala ej_item_solapa) (Some 39600000) (Some 44100000) None
     = Invalido (ConflictoHorarioSala ''A1'' ''Film'' 36000000 42300000)
   \<and> createTurno 0 ej_st1 ej_item_solapa
     = Inl (createError 409 (ConflictoHorarioSala ''A1'' ''Film'' 36000000 42300000)
              ''SCHEDULE_CONFLICT'')
   \<and> validateTurnoOverlap ej_st1_del (d_sala ej_item1) (Some 36000000) (Some 42300000) None
     = Valido
   \<and> prisma_turno_create ej_st1_del None (d_peliculaId ej_item1) (d_sala ej_item1)
       36000000 42300000 ACTIVO None = Inl error_exclusion
   \<and> createTurno 100 ej_st1_del ej_item1
     = Inl (createError 409 ConflictoHorarioDB ''SCHEDULE_CONFLICT'')
   \<and> errorHandler (createError 409 ConflictoHorarioDB ''SCHEDULE_CONFLICT'')
     = \<lparr>r_status = 409, r_code = ''SCHEDULE_CONFLICT'', r_message = ConflictoHorarioDB\<rparr>
   \<and> processTurnoItem 0 \<lparr>l_db = ej_st1, turnosCreados = [ej_turno1], errores = []\<rparr>
        (Some ej_item_solapa) 1
     = Inr \<lparr>l_db = ej_st1, turnosCreados = [ej_turno1],
            errores = [(1, ConflictoHorarioSala ''A1'' ''Film'' 36000000 42300000,
                        ej_item_solapa)]\<rparr>
   \<and> processTurnoItem 100 \<lparr>l_db = ej_st1_del, turnosCreados = [], errores = []\<rparr>
        (Some ej_lote1) 0
     = Inr \<lparr>l_db = ej_st1_del, turnosCreados = [],
            errores = [(0, ConflictoHorarioDBItem, ej_lote1)]\<rparr>"
proof -
  let ?p1 = "\<lparr>pid = ''p1'', titulo = ''Film'', duracionMin = 90, p_eliminadoEn = None\<rparr>"
  let ?p2 = "\<lparr>pid = ''p2'', titulo = ''Corto'', duracionMin = 60, p_eliminadoEn = None\<rparr>"
  let ?m = "ConflictoHorarioSala ''A1'' ''Film'' 36000000 42300000"
  let ?l1 = "\<lparr>l_db = ej_st1, turnosCreados = [ej_turno1], errores = []\<rparr>"
  let ?l2 = "\<lparr>l_db = ej_st1_del, turnosCreados = [], errores = []\<rparr>"
  have o1: "validateTurnoOverlap ej_st1 (d_sala ej_item_solapa) (Some 39600000) (Some 44100000) None
     = Invalido ?m"
    using ej_solapa_precheck by (simp add: ej_item_solapa_def)
  have o2: "validateTurnoOverlap ej_st1_del (d_sala ej_item1) (Some 36000000) (Some 42300000) None
     = Valido"
    using ej_del_precheck by (simp add: ej_item1_def)
  have s2: "prisma_turno_create ej_st1_del None (d_peliculaId ej_item1) (d_sala ej_item1)
       36000000 42300000 ACTIVO None = Inl error_exclusion"
    using ej_del_insert by (simp add: ej_item1_def)
  have i1: "d_inicio ej_item_solapa = Some 39600000" and i2: "d_inicio ej_item1 = Some 36000000"
    and e2: "d_estado ej_item1 = None"
    by (simp_all add: ej_defs)
  have n1: "new_Date (39600000 + (duracionMin ?p2 + 15) * 60 * 1000) = Some 44100000"
    and n2: "new_Date (36000000 + (duracionMin ?p1 + 15) * 60 * 1000) = Some 42300000"
    by (simp_all add: new_Date_def)
  have v1: "validateTurnoDuration 0 (Some 39600000) (Some 44100000) (duracionMin ?p2) = Valido"
    and v2: "validateTurnoDuration 100 (Some 36000000) (Some 42300000) (duracionMin ?p1) = Valido"
    by (simp_all add: validateTurnoDuration_def)
  have h1: "find (\<lambda>p. pid p = d_peliculaId ej_item_solapa \<and> p_eliminadoEn p = None)
              (peliculas ej_st1) = Some ?p2
      \<and> d_inicio ej_item_solapa = Some 39600000
      \<and> new_Date (39600000 + (duracionMin ?p2 + 15) * 60 * 1000) = Some 44100000
      \<and> validateTurnoDuration 0 (Some 39600000) (Some 44100000) (duracionMin ?p2) = Valido
      \<and> validateTurnoOverlap ej_st1 (d_sala ej_item_solapa) (Some 39600000) (Some 44100000)
          None = Invalido ?m"
    using ej_find_p2 i1 n1 v1 o1 by blast
  have c1: "createTurno 0 ej_st1 ej_item_solapa
     = Inl (createError 409 ?m ''SCHEDULE_CONFLICT'')"
    using schedule_conflict_kind [where body = ej_item_solapa and st = ej_st1 and p = ?p2
            and i = 39600000 and f = 44100000 and ahora = 0 and m = ?m,
            THEN conjunct1, THEN mp, OF h1]
      ej_no_incluye [of 36000000 42300000]
    by simp
  have h2: "find (\<lambda>p. pid p = d_peliculaId ej_item1 \<and> p_eliminadoEn p = None)
              (peliculas ej_st1_del) = Some ?p1
      \<and> d_inicio ej_item1 = Some 36000000
      \<and> new_Date (36000000 + (duracionMin ?p1 + 15) * 60 * 1000) = Some 42300000
      \<and> validateTurnoDuration 100 (Some 36000000) (Some 42300000) (duracionMin ?p1) = Valido
      \<and> validateTurnoOverlap ej_st1_del (d_sala ej_item1) (Some 36000000) (Some 42300000)
          None = Valido
      \<and> prisma_turno_create ej_st1_del None (d_peliculaId ej_item1) (d_sala ej_item1)
           36000000 42300000 (case d_estado ej_item1 of None \<Rightarrow> ACTIVO | Some e \<Rightarrow> e) None
          = Inl error_exclusion"
    using ej_find_p1 i2 n2 v2 o2 s2 e2 by simp
  have c2: "createTurno 100 ej_st1_del ej_item1
     = Inl (createError 409 ConflictoHorarioDB ''SCHEDULE_CONFLICT'')"
    by (rule schedule_conflict_kind [where body = ej_item1 and st = ej_st1_del and p = ?p1
            and i = 36000000 and f = 42300000 and ahora = 100,
            THEN conjunct2, THEN conjunct1, THEN mp, OF h2])
  have h3: "ConflictoHorarioDB \<noteq> Texto []" by simp
  have c3: "errorHandler (createError 409 ConflictoHorarioDB ''SCHEDULE_CONFLICT'')
     = \<lparr>r_status = 409, r_code = ''SCHEDULE_CONFLICT'', r_message = ConflictoHorarioDB\<rparr>"
    by (rule schedule_conflict_kind [where m' = ConflictoHorarioDB,
            THEN conjunct2, THEN conjunct2, THEN conjunct1, THEN mp, OF h3])
  have h4: "find (\<lambda>p. pid p = d_peliculaId ej_item_solapa \<and> p_eliminadoEn p = None)
              (peliculas (l_db ?l1)) = Some ?p2
      \<and> validateTurnoDuration 0 (d_inicio ej_item_solapa) (d_fin ej_item_solapa)
          (duracionMin ?p2) = Valido
      \<and> validateTurnoOverlap (l_db ?l1) (d_sala ej_item_solapa) (d_inicio ej_item_solapa)
          (d_fin ej_item_solapa) None = Invalido ?m"
    using ej_find_p2 v1 o1 by (simp add: ej_item_solapa_def)
  have c4: "processTurnoItem 0 ?l1 (Some ej_item_solapa) 1
     = Inr \<lparr>l_db = ej_st1, turnosCreados = [ej_turno1],
            errores = [(1, ?m, ej_item_solapa)]\<rparr>"
    using schedule_conflict_kind [where d = ej_item_solapa and l = ?l1 and q = ?p2
            and ahora = 0 and m = ?m and k = 1,
            THEN conjunct2, THEN conjunct2, THEN conjunct2, THEN conjunct1, THEN mp, OF h4]
    by simp
  have h5: "find (\<lambda>p. pid p = d_peliculaId ej_lote1 \<and> p_eliminadoEn p = None)
              (peliculas (l_db ?l2)) = Some ?p1
      \<and> validateTurnoDuration 100 (d_inicio ej_lote1) (d_fin ej_lote1) (duracionMin ?p1)
          = Valido
      \<and> validateTurnoOverlap (l_db ?l2) (d_sala ej_lote1) (d_inicio ej_lote1) (d_fin ej_lote1)
          None = Valido
      \<and> d_inicio ej_lote1 = Some 36000000 \<and> d_fin ej_lote1 = Some 42300000
      \<and> prisma_turno_create (l_db ?l2) (d_id ej_lote1) (d_peliculaId ej_lote1)
           (d_sala ej_lote1) 36000000 42300000
           (case d_estado ej_lote1 of None \<Rightarrow> ACTIVO | Some e \<Rightarrow> e) (d_eliminadoEn ej_lote1)
          = Inl error_exclusion"
    using ej_find_p1 v2 ej_del_precheck ej_del_insert
    by (simp add: ej_lote1_def ej_item1_def)
  have c5: "processTurnoItem 100 ?l2 (Some ej_lote1) 0
     = Inr \<lparr>l_db = ej_st1_del, turnosCreados = [],
            errores = [(0, ConflictoHorarioDBItem, ej_lote1)]\<rparr>"
    using schedule_conflict_kind [where d = ej_lote1 and l = ?l2 and q = ?p1
            and ahora = 100 and a = 36000000 and b = 42300000 and k = 0,
            THEN conjunct2, THEN conjunct2, THEN conjunct2, THEN conjunct2, THEN mp, OF h5]
    by simp
  show ?thesis using o1 c1 o2 s2 c2 c3 c4 c5 by blast
qed

text \<open>
  As stated, C7 fails: the caller can tell the two rejections apart. A \<^verbatim>\<open>createTurno\<close>
  that the pre-check rejects and one that the storage layer rejects are answered with the
  same status and code and with different messages; and in \<^verbatim>\<open>createMultipleTurnos\<close> the
  two rejections are entries with different messages.
\<close>

theorem schedule_conflict_distinguishable:
  "createTurno 0 ej_st1 ej_item_solapa
     = Inl (createError 409 (ConflictoHorarioSala ''A1'' ''Film'' 36000000 42300000)
              ''SCHEDULE_CONFLICT'')
   \<and> createTurno 100 ej_st1_del ej_item1
     = Inl (createError 409 ConflictoHorarioDB ''SCHEDULE_CONFLICT'')
   \<and> errorHandler (createError 409 (ConflictoHorarioSala ''A1'' ''Film'' 36000000 42300000)
                     ''SCHEDULE_CONFLICT'')
     = \<lparr>r_status = 409, r_code = ''SCHEDULE_CONFLICT'',
        r_message = ConflictoHorarioSala ''A1'' ''Film'' 36000000 42300000\<rparr>
   \<and> errorHandler (createError 409 ConflictoHorarioDB ''SCHEDULE_CONFLICT'')
     = \<lparr>r_status = 409, r_code = ''SCHEDULE_CONFLICT'', r_message = ConflictoHorarioDB\<rparr>
   \<and> errorHandler (createError 409 (ConflictoHorarioSala ''A1'' ''Film'' 36000000 42300000)
                     ''SCHEDULE_CONFLICT'')
     \<noteq> errorHandler (createError 409 ConflictoHorarioDB ''SCHEDULE_CONFLICT'')
   \<and> processTurnoItem 0 \<lparr>l_db = ej_st1, turnosCreados = [ej_turno1], errores = []\<rparr>
        (Some ej_item_solapa) 1
     = Inr \<lparr>l_db = ej_st1, turnosCreados = [ej_turno1],
            errores = [(1, ConflictoHorarioSala ''A1'' ''Film'' 36000000 42300000,
                        ej_item_solapa)]\<rparr>
   \<and> processTurnoItem 100 \<lparr>l_db = ej_st1_del, turnosCreados = [], errores = []\<rparr>
        (Some ej_lote1) 0
     = Inr \<lparr>l_db = ej_st1_del, turnosCreados = [],
            errores = [(0, ConflictoHorarioDBItem, ej_lote1)]\<rparr>"
proof -
  have e1: "errorHandler (createError 409 (ConflictoHorarioSala ''A1'' ''Film'' 36000000 42300000)
                     ''SCHEDULE_CONFLICT'')
     = \<lparr>r_status = 409, r_code = ''SCHEDULE_CONFLICT'',
        r_message = ConflictoHorarioSala ''A1'' ''Film'' 36000000 42300000\<rparr>"
    by (simp add: errorHandler_def createError_def)
  have e2: "errorHandler (createError 409 ConflictoHorarioDB ''SCHEDULE_CONFLICT'')
     = \<lparr>r_status = 409, r_code = ''SCHEDULE_CONFLICT'', r_message = ConflictoHorarioDB\<rparr>"
    by (simp add: errorHandler_def createError_def)
  have ne: "errorHandler (createError 409 (ConflictoHorarioSala ''A1'' ''Film'' 36000000 42300000)
                     ''SCHEDULE_CONFLICT'')
     \<noteq> errorHandler (createError 409 ConflictoHorarioDB ''SCHEDULE_CONFLICT'')"
    unfolding e1 e2 by simp
  have b1: "processTurnoItem 0 \<lparr>l_db = ej_st1, turnosCreados = [ej_turno1], errores = []\<rparr>
        (Some ej_item_solapa) 1
     = Inr \<lparr>l_db = ej_st1, turnosCreados = [ej_turno1],
            errores = [(1, ConflictoHorarioSala ''A1'' ''Film'' 36000000 42300000,
                        ej_item_solapa)]\<rparr>"
    using ej_lote_solapa by simp
  show ?thesis using ej_crear_solapa ej_crear_del e1 e2 ne b1 ej_lote_del by blast
qed

text \<open>
  C3. The exclusion constraint of the migration has no predicate on \<^verbatim>\<open>estado\<close> or
  \<^verbatim>\<open>eliminadoEn\<close>: on a table whose only turno is deleted and \<^verbatim>\<open>CANCELADO\<close>, the overlap
  pre-check accepts a new turno in the same sala and window, and the insert is still
  rejected as a 409 \<^verbatim>\<open>SCHEDULE_CONFLICT\<close>.
\<close>

theorem createTurno_conflict_with_deleted_turno:
  "validateTurnoOverlap ej_st1_del (d_sala ej_item1) (Some 36000000) (Some 42300000) None = Valido
   \<and> createTurno 100 ej_st1_del ej_item1
       = Inl (createError 409 ConflictoHorarioDB ''SCHEDULE_CONFLICT'')"
  by (simp add: ej_defs createTurno_def createTurno_try_def validateTurnoDuration_def
        validateTurnoOverlap_def where_solapados_def solapa_def new_Date_def
        prisma_turno_create_def comprobar_fila_def viola_exclusion_def rangos_solapan_def
        es_conflicto_db_exclusion Let_def)

section \<open>The batch\<close>













text \<open>
  The item is spread into the row: one sent with \<^verbatim>\<open>eliminadoEn\<close> is stored \<^verbatim>\<open>ACTIVO\<close>
  with \<^verbatim>\<open>eliminadoEn\<close> set.
\<close>

lemma ej_lote_eliminado:
  "processTurnoItem 0 \<lparr>l_db = vacio ej_peliculas, turnosCreados = [], errores = []\<rparr>
      (Some (ej_lote1\<lparr>d_eliminadoEn := Some 5\<rparr>)) 0
     = Inr \<lparr>l_db = \<lparr>peliculas = ej_peliculas, turnos = [ej_turno1\<lparr>eliminadoEn := Some 5\<rparr>],
                     siguienteId = 1\<rparr>,
            turnosCreados = [ej_turno1\<lparr>eliminadoEn := Some 5\<rparr>], errores = []\<rparr>"
  by (simp add: ej_defs processTurnoItem_def validateTurnoDuration_def
        validateTurnoOverlap_def prisma_turno_create_def comprobar_fila_def
        viola_exclusion_def Let_def)





section \<open>Updating a turno\<close>














end
